theory Spec2Isabelle
  imports Complex_Main "HOL-Library.AList" "HOL-Library.Char_ord" "HOL-Library.List_Lexorder"
begin

section \<open>Reflected Go types and values\<close>

text \<open>
  The server inspects handlers through package reflect. A reflected type is a finite
  tree. A struct type carries the methods declared on it with a value receiver, those
  declared with a pointer receiver, and its fields (name, type, tag); a method is
  identified by its name together with its signature. A struct tag is the list of its
  key/value pairs in the order they are written.
\<close>

type_synonym struct_tag = "(string \<times> string) list"

datatype go_type =
    TBool
  | TInt
  | TFloat64
  | TString
  | TStruct "string list" "string list" "(string \<times> go_type \<times> struct_tag) list"
  | TPtr go_type
  | TSlice go_type
  | TMap go_type go_type
  | TFunc "go_type list" "go_type list"
  | TInterface "string list"

datatype Kind = KBool | KInt | KFloat64 | KString | KStruct | KPtr | KSlice | KMap | KFunc | KInterface

fun kind_of :: "go_type \<Rightarrow> Kind" where
  "kind_of TBool = KBool"
| "kind_of TInt = KInt"
| "kind_of TFloat64 = KFloat64"
| "kind_of TString = KString"
| "kind_of (TStruct vm pm fs) = KStruct"
| "kind_of (TPtr t) = KPtr"
| "kind_of (TSlice t) = KSlice"
| "kind_of (TMap k v) = KMap"
| "kind_of (TFunc ins outs) = KFunc"
| "kind_of (TInterface ms) = KInterface"

text \<open>The method set of a type: a pointer to a struct has the methods of both receivers.\<close>

fun methodSet :: "go_type \<Rightarrow> string list" where
  "methodSet (TStruct vm pm fs) = vm"
| "methodSet (TPtr (TStruct vm pm fs)) = vm @ pm"
| "methodSet (TInterface ms) = ms"
| "methodSet t = []"

text \<open>\<open>t.Implements(u)\<close> for an interface type \<open>u\<close> given by its methods.\<close>

definition Implements :: "go_type \<Rightarrow> string list \<Rightarrow> bool" where
  "Implements t u = list_all (\<lambda>m. m \<in> set (methodSet t)) u"

text \<open>The method set of \<open>context.Context\<close>.\<close>

definition contextContext :: "string list" where
  "contextContext = [''Deadline'', ''Done'', ''Err'', ''Value'']"

text \<open>\<open>Tag.Get(key)\<close>: the value of the first pair with that key, the empty string if none.\<close>

definition tag_Get :: "struct_tag \<Rightarrow> string \<Rightarrow> string" where
  "tag_Get tag key = (case map_of tag key of None \<Rightarrow> [] | Some v \<Rightarrow> v)"

text \<open>
  Go values as the dispatcher sees them. \<open>VNil\<close> is the nil of any nilable kind (a nil
  error among them), \<open>VError m\<close> a non-nil error whose \<open>Error()\<close> is \<open>m\<close>, \<open>VStruct\<close> a
  struct value with its fields in declaration order, \<open>VContext\<close> the background context.
\<close>

datatype go_value =
    VNil
  | VBool bool
  | VInt int
  | VFloat64 rat
  | VString string
  | VStruct "(string \<times> go_value) list"
  | VPtr go_value
  | VError string
  | VContext

section \<open>Protocol types (pkg/protocol)\<close>

text \<open>
  The JSON Schema document of the schema library: its type keyword, description,
  ordered properties (\<open>None\<close> when the map is nil) and required list.
\<close>

datatype schema =
  Schema (schType: string) (schDescription: string)
         (schProperties: "(string \<times> schema) list option") (schRequired: "string list")

record Tool =
  Name :: string
  Title :: string
  Description :: string
  InputSchema :: "schema option"

section \<open>Schema generation (schema\_generator.go)\<close>

text \<open>\<open>strings.Split(jsonTag, ",")[0]\<close>: the tag up to its first comma.\<close>

definition propertyName :: "string \<Rightarrow> string" where
  "propertyName jsonTag = takeWhile (\<lambda>c. c \<noteq> CHR '','') jsonTag"

definition setDescription :: "string \<Rightarrow> schema \<Rightarrow> schema" where
  "setDescription d p = Schema (schType p) d (schProperties p) (schRequired p)"

text \<open>
  Step 2, the loop over the fields: a field with a json tag other than \<open>-\<close> whose
  property exists in the schema and whose description tag is not empty gets the tag as
  the property's description.
\<close>

fun addDescriptions ::
  "(string \<times> go_type \<times> struct_tag) list \<Rightarrow> (string \<times> schema) list \<Rightarrow> (string \<times> schema) list" where
  "addDescriptions [] props = props"
| "addDescriptions ((n, t, tag) # fs) props =
     (let jsonTag = tag_Get tag ''json'' in
      if jsonTag = [] \<or> jsonTag = ''-'' then addDescriptions fs props
      else
        (case map_of props (propertyName jsonTag) of
           Some prop \<Rightarrow>
             (let descTag = tag_Get tag ''description'' in
              if descTag \<noteq> []
              then addDescriptions fs
                     (AList.map_entry (propertyName jsonTag) (setDescription descTag) props)
              else addDescriptions fs props)
         | None \<Rightarrow> addDescriptions fs props))"

text \<open>Step 3, the loop over the fields: every json-tagged field is appended to required.\<close>

fun addRequired :: "(string \<times> go_type \<times> struct_tag) list \<Rightarrow> string list \<Rightarrow> string list" where
  "addRequired [] req = req"
| "addRequired ((n, t, tag) # fs) req =
     (let jsonTag = tag_Get tag ''json'' in
      if jsonTag \<noteq> [] \<and> jsonTag \<noteq> ''-''
      then addRequired fs (req @ [propertyName jsonTag])
      else addRequired fs req)"

text \<open>
  \<open>json.MarshalIndent\<close> on a schema document: the bytes are represented by the document
  they encode, and encoding a schema document does not fail.
\<close>

definition json_MarshalIndent :: "schema \<Rightarrow> string + schema" where
  "json_MarshalIndent sch = Inr sch"

text \<open>Step 2 on the reflected schema: skipped when its properties map is nil.\<close>

definition describeProperties :: "(string \<times> go_type \<times> struct_tag) list \<Rightarrow> schema \<Rightarrow> schema" where
  "describeProperties flds sch =
     (case schProperties sch of
        Some props \<Rightarrow>
          Schema (schType sch) (schDescription sch) (Some (addDescriptions flds props))
                 (schRequired sch)
      | None \<Rightarrow> sch)"

text \<open>Step 3 on the schema: skipped as well when the properties map is nil.\<close>

definition markRequired :: "(string \<times> go_type \<times> struct_tag) list \<Rightarrow> schema \<Rightarrow> schema" where
  "markRequired flds sch =
     (case schProperties sch of
        Some props \<Rightarrow>
          Schema (schType sch) (schDescription sch) (Some props)
                 (addRequired flds (schRequired sch))
      | None \<Rightarrow> sch)"

text \<open>
  \<open>generateSchemaForType\<close>. The reflector of the schema library is the parameter
  \<open>reflect\<close>, applied to the struct type; a type that is not a struct (after one
  pointer is removed) gets the empty object schema.
\<close>

definition generateSchemaForType :: "(go_type \<Rightarrow> schema) \<Rightarrow> go_type \<Rightarrow> string + schema" where
  "generateSchemaForType reflect t0 =
     (let t = (case t0 of TPtr e \<Rightarrow> e | _ \<Rightarrow> t0) in
      case t of
        TStruct vm pm flds \<Rightarrow>
          json_MarshalIndent (markRequired flds (describeProperties flds (reflect t)))
      | _ \<Rightarrow> Inr (Schema ''object'' [] (Some []) []))"

section \<open>The server and tool registration (server.go)\<close>

text \<open>
  A handler as \<open>reflect.ValueOf\<close> presents it: its type, and what calling it returns on a
  list of arguments (the handler bodies belong to the caller).
\<close>

record handler =
  vtype :: go_type
  vcall :: "go_value list \<Rightarrow> go_value list"

text \<open>\<open>Handler\<close> is an \<open>interface{}\<close>: \<open>None\<close> is the nil interface.\<close>

record ToolRegistration =
  Definition :: Tool
  Handler :: "handler option"

record internalRegisteredTool =
  tool_Definition :: Tool
  handlerValue :: handler
  inputType :: go_type
  takesContext :: bool

record ImplementationInfo =
  info_Name :: string
  info_Version :: string
  info_Title :: string

record ServerCapabilities =
  cap_Tools :: "bool option"
  cap_Resources :: "(bool \<times> bool) option"
  cap_Prompts :: "bool option"
  cap_Logging :: "unit option"

record ClientCapabilities =
  Roots :: "unit option"
  Sampling :: "unit option"
  Elicitation :: "unit option"

record SessionState =
  session_ClientCapabilities :: ClientCapabilities

record Server =
  info :: ImplementationInfo
  capabilities :: ServerCapabilities
  sessions :: "string \<rightharpoonup> SessionState"
  tools :: "string \<rightharpoonup> internalRegisteredTool"

definition NewServer :: "string \<Rightarrow> string \<Rightarrow> ServerCapabilities \<Rightarrow> Server" where
  "NewServer name version caps =
     \<lparr>info = \<lparr>info_Name = name, info_Version = version, info_Title = []\<rparr>,
      capabilities = caps, sessions = Map.empty, tools = Map.empty\<rparr>"

text \<open>The errors of registration, one per \<open>fmt.Errorf\<close> of the source.\<close>

datatype reg_error =
    NameMissing
  | HandlerNotFunc
  | WrongArgCount nat nat
  | NotPtrToStruct go_type
  | SchemaFailed go_type string
  | AlreadyRegistered string
  | RegisterFailed string reg_error

text \<open>What a registration call does: return nil, return an error, or panic.\<close>

datatype reg_outcome = Ok | Err reg_error | Panic string

definition isPtrToStruct :: "go_type \<Rightarrow> bool" where
  "isPtrToStruct t = (case t of TPtr e \<Rightarrow> kind_of e = KStruct | _ \<Rightarrow> False)"

text \<open>
  \<open>registerSingleTool\<close>. \<open>reflect.ValueOf\<close> of a nil handler is the zero Value, whose
  \<open>Type()\<close> panics. The server is returned as the call leaves it.
\<close>

definition registerSingleTool ::
  "(go_type \<Rightarrow> schema) \<Rightarrow> Server \<Rightarrow> ToolRegistration \<Rightarrow> Server \<times> reg_outcome" where
  "registerSingleTool reflect s reg =
     (let toolDef = Definition reg in
      if Name toolDef = [] then (s, Err NameMissing)
      else
        (case Handler reg of
           None \<Rightarrow> (s, Panic ''reflect: call of reflect.Value.Type on zero Value'')
         | Some handlerVal \<Rightarrow>
             (case vtype handlerVal of
                TFunc ins outs \<Rightarrow>
                  (let numIn = length ins;
                       takesCtx = (case ins of [] \<Rightarrow> False
                                   | t # _ \<Rightarrow> Implements t contextContext);
                       expectedArgCount = (if takesCtx then 2 else 1)
                   in if numIn \<noteq> expectedArgCount
                      then (s, Err (WrongArgCount expectedArgCount numIn))
                      else
                        (let inType = last ins in
                         if \<not> isPtrToStruct inType then (s, Err (NotPtrToStruct inType))
                         else
                           (case generateSchemaForType reflect inType of
                              Inl e \<Rightarrow> (s, Err (SchemaFailed inType e))
                            | Inr inputSchema \<Rightarrow>
                                (let toolDef' = toolDef\<lparr>InputSchema := Some inputSchema\<rparr> in
                                 if tools s (Name toolDef') \<noteq> None
                                 then (s, Err (AlreadyRegistered (Name toolDef')))
                                 else
                                   (s\<lparr>tools := (tools s)(Name toolDef' \<mapsto>
                                        \<lparr>tool_Definition = toolDef', handlerValue = handlerVal,
                                         inputType = inType, takesContext = takesCtx\<rparr>)\<rparr>,
                                    Ok)))))
              | _ \<Rightarrow> (s, Err HandlerNotFunc))))"

text \<open>\<open>RegisterTools\<close>: the loop over the batch, returning at the first failure.\<close>

fun RegisterTools ::
  "(go_type \<Rightarrow> schema) \<Rightarrow> Server \<Rightarrow> ToolRegistration list \<Rightarrow> Server \<times> reg_outcome" where
  "RegisterTools reflect s [] = (s, Ok)"
| "RegisterTools reflect s (reg # registrations) =
     (case registerSingleTool reflect s reg of
        (s', Ok) \<Rightarrow> RegisterTools reflect s' registrations
      | (s', Err e) \<Rightarrow> (s', Err (RegisterFailed (Name (Definition reg)) e))
      | (s', Panic m) \<Rightarrow> (s', Panic m))"


section \<open>JSON documents and their decoding (encoding/json)\<close>

text \<open>
  A JSON value as the decoder scans it. A number carries the float64 that
  \<open>strconv.ParseFloat\<close> gives for its literal, \<open>None\<close> when the literal is out of the
  float64 range. An object keeps its members in the order they are written, duplicate
  keys included. A byte sequence is a \<open>json option\<close>: \<open>None\<close> for bytes that are not
  one valid JSON text (the empty sequence among them).
\<close>

datatype json =
    JNull
  | JBool bool
  | JNumber "rat option"
  | JString string
  | JArray "json list"
  | JObject "(string \<times> json) list"

text \<open>
  The errors of decoding. When several members of a document fail, the first failure is
  the one reported here; every failure makes \<open>json.Unmarshal\<close> return an error.
\<close>

datatype json_error = SyntaxError | UnmarshalTypeError | InvalidRequestID

text \<open>
  Keys are matched to struct fields exactly, and otherwise by their folded names; among
  several fields with the same folded name the first wins. The folding of a name
  (\<open>foldName\<close> of encoding/json, which folds case rune by rune with the tables of
  package unicode) is the parameter \<open>foldName\<close> of the decoding functions and of the
  handlers that decode. On a name of ASCII characters it maps the lower-case letters to
  upper case and nothing else: \<open>asciiFold\<close> is the folding of such names.
\<close>

definition asciiUpper :: "char \<Rightarrow> char" where
  "asciiUpper c =
     (case map_of (zip ''abcdefghijklmnopqrstuvwxyz'' ''ABCDEFGHIJKLMNOPQRSTUVWXYZ'') c of
        None \<Rightarrow> c | Some u \<Rightarrow> u)"

definition asciiFold :: "string \<Rightarrow> string" where
  "asciiFold n = map asciiUpper n"

definition findField :: "(string \<Rightarrow> string) \<Rightarrow> string list \<Rightarrow> string \<Rightarrow> string option" where
  "findField foldName names key =
     (if key \<in> set names then Some key
      else find (\<lambda>n. foldName n = foldName key) names)"

text \<open>
  Decoding an object into a struct, the struct given by its fields' JSON names and
  what storing a value into each does: the members are taken in order, a member whose
  key matches no field is skipped, and a missing member leaves its field as it is.
\<close>

type_synonym 's field_store = "string \<times> (json \<Rightarrow> 's \<Rightarrow> json_error + 's)"

fun object :: "(string \<Rightarrow> string) \<Rightarrow> 's field_store list \<Rightarrow> (string \<times> json) list \<Rightarrow> 's \<Rightarrow> json_error + 's" where
  "object foldName fds [] s = Inr s"
| "object foldName fds ((k, v) # kvs) s =
     (case findField foldName (map fst fds) k of
        None \<Rightarrow> object foldName fds kvs s
      | Some n \<Rightarrow>
          (case map_of fds n of
             None \<Rightarrow> object foldName fds kvs s
           | Some store \<Rightarrow>
               (case store v s of
                  Inl e \<Rightarrow> Inl e
                | Inr s' \<Rightarrow> object foldName fds kvs s')))"

text \<open>
  \<open>json.Unmarshal(bytes, &s)\<close> for a struct \<open>s\<close>: invalid bytes are a syntax error, null
  leaves the struct as it is, an object is decoded member by member, and any other
  value is a type error.
\<close>

definition unmarshalStruct :: "(string \<Rightarrow> string) \<Rightarrow> 's field_store list \<Rightarrow> json option \<Rightarrow> 's \<Rightarrow> json_error + 's" where
  "unmarshalStruct foldName fds doc s =
     (case doc of
        None \<Rightarrow> Inl SyntaxError
      | Some JNull \<Rightarrow> Inr s
      | Some (JObject kvs) \<Rightarrow> object foldName fds kvs s
      | Some _ \<Rightarrow> Inl UnmarshalTypeError)"

text \<open>Storing into a string field: null is ignored, a string is stored.\<close>

definition storeString :: "(string \<Rightarrow> 's \<Rightarrow> 's) \<Rightarrow> json \<Rightarrow> 's \<Rightarrow> json_error + 's" where
  "storeString upd v s =
     (case v of JNull \<Rightarrow> Inr s | JString x \<Rightarrow> Inr (upd x s) | _ \<Rightarrow> Inl UnmarshalTypeError)"

text \<open>Storing into a field of type \<open>*struct{}\<close>: null makes it nil, an object allocates it.\<close>

definition storeEmptyStructPtr ::
  "(unit option \<Rightarrow> 's \<Rightarrow> 's) \<Rightarrow> json \<Rightarrow> 's \<Rightarrow> json_error + 's" where
  "storeEmptyStructPtr upd v s =
     (case v of JNull \<Rightarrow> Inr (upd None s) | JObject kvs \<Rightarrow> Inr (upd (Some ()) s)
      | _ \<Rightarrow> Inl UnmarshalTypeError)"

text \<open>Storing into a field that is itself a struct.\<close>

definition storeStruct ::
  "(string \<Rightarrow> string) \<Rightarrow> 't field_store list \<Rightarrow> ('s \<Rightarrow> 't) \<Rightarrow> ('t \<Rightarrow> 's \<Rightarrow> 's) \<Rightarrow> json \<Rightarrow> 's \<Rightarrow> json_error + 's" where
  "storeStruct foldName fds get upd v s =
     (case v of
        JNull \<Rightarrow> Inr s
      | JObject kvs \<Rightarrow>
          (case object foldName fds kvs (get s) of Inl e \<Rightarrow> Inl e | Inr t \<Rightarrow> Inr (upd t s))
      | _ \<Rightarrow> Inl UnmarshalTypeError)"

subsection \<open>RequestID (protocol.go)\<close>

text \<open>The value of a RequestID: nil, a string or a float64.\<close>

datatype RequestID = IDNil | IDString string | IDNumber rat

text \<open>
  \<open>json.Unmarshal(data, &str)\<close> and \<open>json.Unmarshal(data, &num)\<close> on fresh variables:
  null has no effect and is no error, so the variable keeps its zero value.
\<close>

definition unmarshalString :: "json \<Rightarrow> json_error + string" where
  "unmarshalString data =
     (case data of JString x \<Rightarrow> Inr x | JNull \<Rightarrow> Inr [] | _ \<Rightarrow> Inl UnmarshalTypeError)"

definition unmarshalFloat64 :: "json \<Rightarrow> json_error + rat" where
  "unmarshalFloat64 data =
     (case data of JNumber (Some q) \<Rightarrow> Inr q | JNull \<Rightarrow> Inr 0 | _ \<Rightarrow> Inl UnmarshalTypeError)"

text \<open>\<open>RequestID.UnmarshalJSON\<close>: string first, then number, then the null check.\<close>

definition RequestID_UnmarshalJSON :: "json \<Rightarrow> json_error + RequestID" where
  "RequestID_UnmarshalJSON data =
     (case unmarshalString data of
        Inr str \<Rightarrow> Inr (IDString str)
      | Inl _ \<Rightarrow>
          (case unmarshalFloat64 data of
             Inr num \<Rightarrow> Inr (IDNumber num)
           | Inl _ \<Rightarrow> if data = JNull then Inr IDNil else Inl InvalidRequestID))"

text \<open>\<open>RequestID.MarshalJSON\<close>: null for the nil value, the value itself otherwise.\<close>

definition RequestID_MarshalJSON :: "RequestID \<Rightarrow> json" where
  "RequestID_MarshalJSON i =
     (case i of IDNil \<Rightarrow> JNull | IDString x \<Rightarrow> JString x | IDNumber q \<Rightarrow> JNumber (Some q))"

subsection \<open>Envelopes (protocol.go)\<close>

text \<open>\<open>Params\<close> is a raw message: \<open>None\<close> when the member is absent (no bytes).\<close>

record Request =
  JSONRPC :: string
  ID :: RequestID
  Method :: string
  Params :: "json option"

record Notification =
  notif_JSONRPC :: string
  notif_Method :: string
  notif_Params :: "json option"

definition requestFields :: "Request field_store list" where
  "requestFields =
     [(''jsonrpc'', storeString (\<lambda>x s. s\<lparr>JSONRPC := x\<rparr>)),
      (''id'', \<lambda>v s. case RequestID_UnmarshalJSON v of
                         Inl e \<Rightarrow> Inl e | Inr i \<Rightarrow> Inr (s\<lparr>ID := i\<rparr>)),
      (''method'', storeString (\<lambda>x s. s\<lparr>Method := x\<rparr>)),
      (''params'', \<lambda>v s. Inr (s\<lparr>Params := Some v\<rparr>))]"

definition notificationFields :: "Notification field_store list" where
  "notificationFields =
     [(''jsonrpc'', storeString (\<lambda>x s. s\<lparr>notif_JSONRPC := x\<rparr>)),
      (''method'', storeString (\<lambda>x s. s\<lparr>notif_Method := x\<rparr>)),
      (''params'', \<lambda>v s. Inr (s\<lparr>notif_Params := Some v\<rparr>))]"

definition unmarshalRequest :: "(string \<Rightarrow> string) \<Rightarrow> json option \<Rightarrow> json_error + Request" where
  "unmarshalRequest foldName body =
     unmarshalStruct foldName requestFields body \<lparr>JSONRPC = [], ID = IDNil, Method = [], Params = None\<rparr>"

definition unmarshalNotification :: "(string \<Rightarrow> string) \<Rightarrow> json option \<Rightarrow> json_error + Notification" where
  "unmarshalNotification foldName body =
     unmarshalStruct foldName notificationFields body
       \<lparr>notif_JSONRPC = [], notif_Method = [], notif_Params = None\<rparr>"

text \<open>
  \<open>json.Unmarshal(body, &rawMessage)\<close> for the map of raw members: null leaves the map
  nil, an object gives its members, anything else is an error.
\<close>

definition unmarshalRawMessage :: "json option \<Rightarrow> json_error + (string \<times> json) list" where
  "unmarshalRawMessage body =
     (case body of
        None \<Rightarrow> Inl SyntaxError
      | Some JNull \<Rightarrow> Inr []
      | Some (JObject kvs) \<Rightarrow> Inr kvs
      | Some _ \<Rightarrow> Inl UnmarshalTypeError)"

subsection \<open>Parameters of the methods (protocol.go)\<close>

record InitializeRequest =
  init_ProtocolVersion :: string
  ClientInfo :: ImplementationInfo
  init_Capabilities :: ClientCapabilities

record InitializeResult =
  ProtocolVersion :: string
  ServerInfo :: ImplementationInfo
  Capabilities :: ServerCapabilities
  Instructions :: string

definition implementationInfoFields :: "ImplementationInfo field_store list" where
  "implementationInfoFields =
     [(''name'', storeString (\<lambda>x i. i\<lparr>info_Name := x\<rparr>)),
      (''version'', storeString (\<lambda>x i. i\<lparr>info_Version := x\<rparr>)),
      (''title'', storeString (\<lambda>x i. i\<lparr>info_Title := x\<rparr>))]"

definition clientCapabilitiesFields :: "ClientCapabilities field_store list" where
  "clientCapabilitiesFields =
     [(''roots'', storeEmptyStructPtr (\<lambda>x c. c\<lparr>Roots := x\<rparr>)),
      (''sampling'', storeEmptyStructPtr (\<lambda>x c. c\<lparr>Sampling := x\<rparr>)),
      (''elicitation'', storeEmptyStructPtr (\<lambda>x c. c\<lparr>Elicitation := x\<rparr>))]"

definition initializeRequestFields :: "(string \<Rightarrow> string) \<Rightarrow> InitializeRequest field_store list" where
  "initializeRequestFields foldName =
     [(''protocolVersion'', storeString (\<lambda>x p. p\<lparr>init_ProtocolVersion := x\<rparr>)),
      (''clientInfo'', storeStruct foldName implementationInfoFields ClientInfo (\<lambda>x p. p\<lparr>ClientInfo := x\<rparr>)),
      (''capabilities'',
         storeStruct foldName clientCapabilitiesFields init_Capabilities (\<lambda>x p. p\<lparr>init_Capabilities := x\<rparr>))]"

definition unmarshalInitializeRequest :: "(string \<Rightarrow> string) \<Rightarrow> json option \<Rightarrow> json_error + InitializeRequest" where
  "unmarshalInitializeRequest foldName params =
     unmarshalStruct foldName (initializeRequestFields foldName) params
       \<lparr>init_ProtocolVersion = [],
        ClientInfo = \<lparr>info_Name = [], info_Version = [], info_Title = []\<rparr>,
        init_Capabilities = \<lparr>Roots = None, Sampling = None, Elicitation = None\<rparr>\<rparr>"

text \<open>
  Values decoded into \<open>interface{}\<close> are represented by the JSON value they came from.
  Decoding fails on a number outside the float64 range; an object becomes a map, so a
  later duplicate of a key replaces the earlier one, and the map is written back by
  \<open>json.Marshal\<close> with its keys sorted.
\<close>

fun inRange :: "json \<Rightarrow> bool"
  and inRangeList :: "json list \<Rightarrow> bool"
  and inRangeMembers :: "(string \<times> json) list \<Rightarrow> bool" where
  "inRange JNull = True"
| "inRange (JBool b) = True"
| "inRange (JNumber n) = (n \<noteq> None)"
| "inRange (JString x) = True"
| "inRange (JArray xs) = inRangeList xs"
| "inRange (JObject kvs) = inRangeMembers kvs"
| "inRangeList [] = True"
| "inRangeList (x # xs) = (inRange x \<and> inRangeList xs)"
| "inRangeMembers [] = True"
| "inRangeMembers ((k, v) # kvs) = (inRange v \<and> inRangeMembers kvs)"

definition toMap :: "(string \<times> json) list \<Rightarrow> (string \<times> json) list \<Rightarrow> (string \<times> json) list" where
  "toMap kvs m = fold (\<lambda>kv acc. AList.update (fst kv) (snd kv) acc) kvs m"

fun viaInterface :: "json \<Rightarrow> json"
  and viaInterfaceList :: "json list \<Rightarrow> json list"
  and viaInterfaceMembers :: "(string \<times> json) list \<Rightarrow> (string \<times> json) list" where
  "viaInterface JNull = JNull"
| "viaInterface (JBool b) = JBool b"
| "viaInterface (JNumber n) = JNumber n"
| "viaInterface (JString x) = JString x"
| "viaInterface (JArray xs) = JArray (viaInterfaceList xs)"
| "viaInterface (JObject kvs) = JObject (sort_key fst (toMap (viaInterfaceMembers kvs) []))"
| "viaInterfaceList [] = []"
| "viaInterfaceList (x # xs) = viaInterface x # viaInterfaceList xs"
| "viaInterfaceMembers [] = []"
| "viaInterfaceMembers ((k, v) # kvs) = (k, viaInterface v) # viaInterfaceMembers kvs"

text \<open>
  \<open>CallToolRequest\<close>. \<open>Arguments\<close> is a map from strings to \<open>interface{}\<close>: \<open>None\<close> is the
  nil map, otherwise the entries of the map, one per key.
\<close>

record CallToolRequest =
  call_Name :: string
  Arguments :: "(string \<times> json) list option"

definition storeArguments :: "json \<Rightarrow> CallToolRequest \<Rightarrow> json_error + CallToolRequest" where
  "storeArguments v c =
     (case v of
        JNull \<Rightarrow> Inr (c\<lparr>Arguments := None\<rparr>)
      | JObject kvs \<Rightarrow>
          if inRangeMembers kvs
          then Inr (c\<lparr>Arguments :=
                 Some (toMap (viaInterfaceMembers kvs)
                         (case Arguments c of None \<Rightarrow> [] | Some m \<Rightarrow> m))\<rparr>)
          else Inl UnmarshalTypeError
      | _ \<Rightarrow> Inl UnmarshalTypeError)"

definition callToolRequestFields :: "CallToolRequest field_store list" where
  "callToolRequestFields =
     [(''name'', storeString (\<lambda>x c. c\<lparr>call_Name := x\<rparr>)),
      (''arguments'', storeArguments)]"

definition unmarshalCallToolRequest :: "(string \<Rightarrow> string) \<Rightarrow> json option \<Rightarrow> json_error + CallToolRequest" where
  "unmarshalCallToolRequest foldName params =
     unmarshalStruct foldName callToolRequestFields params \<lparr>call_Name = [], Arguments = None\<rparr>"

text \<open>\<open>json.Marshal(callParams.Arguments)\<close>: null for the nil map, keys sorted otherwise.\<close>

definition marshalArguments :: "(string \<times> json) list option \<Rightarrow> json option" where
  "marshalArguments a =
     (case a of None \<Rightarrow> Some JNull | Some m \<Rightarrow> Some (JObject (sort_key fst m)))"

subsection \<open>Decoding the arguments into the parameter struct\<close>

text \<open>The zero value of a type, as \<open>reflect.New\<close> allocates it.\<close>

fun zeroValue :: "go_type \<Rightarrow> go_value"
  and zeroFields :: "(string \<times> go_type \<times> struct_tag) list \<Rightarrow> (string \<times> go_value) list" where
  "zeroValue TBool = VBool False"
| "zeroValue TInt = VInt 0"
| "zeroValue TFloat64 = VFloat64 0"
| "zeroValue TString = VString []"
| "zeroValue (TStruct vm pm flds) = VStruct (zeroFields flds)"
| "zeroValue (TPtr t) = VNil"
| "zeroValue (TSlice t) = VNil"
| "zeroValue (TMap k v) = VNil"
| "zeroValue (TFunc ins outs) = VNil"
| "zeroValue (TInterface ms) = VNil"
| "zeroFields [] = []"
| "zeroFields ((n, t, tag) # flds) = (n, zeroValue t) # zeroFields flds"

text \<open>The name of a field on the wire.\<close>

definition wireName :: "string \<times> go_type \<times> struct_tag \<Rightarrow> string" where
  "wireName f =
     (case f of (n, t, tag) \<Rightarrow>
        if propertyName (tag_Get tag ''json'') = [] then n
        else propertyName (tag_Get tag ''json''))"

text \<open>
  The fields of a struct that the decoder fills: exported, not tagged \<open>json:"-"\<close>, named
  by the json tag or else by the field name; of several fields with one JSON name the
  single tagged one stands, or the single one, and otherwise none. Embedded fields and
  the validity of tag names are outside this model.
\<close>

definition exported :: "string \<Rightarrow> bool" where
  "exported n = (case n of [] \<Rightarrow> False | c # _ \<Rightarrow> c \<in> set ''ABCDEFGHIJKLMNOPQRSTUVWXYZ'')"

definition candidateField :: "string \<times> go_type \<times> struct_tag \<Rightarrow> bool" where
  "candidateField f = (case f of (n, t, tag) \<Rightarrow> exported n \<and> tag_Get tag ''json'' \<noteq> ''-'')"

definition taggedField :: "string \<times> go_type \<times> struct_tag \<Rightarrow> bool" where
  "taggedField f = (case f of (n, t, tag) \<Rightarrow> propertyName (tag_Get tag ''json'') \<noteq> [])"

definition dominantField ::
  "(string \<times> go_type \<times> struct_tag) list \<Rightarrow> string \<Rightarrow> (string \<times> go_type \<times> struct_tag) option" where
  "dominantField flds name =
     (let cs = filter (\<lambda>f. wireName f = name) (filter candidateField flds) in
      case filter taggedField cs of
        [f] \<Rightarrow> Some f
      | [] \<Rightarrow> (case cs of [f] \<Rightarrow> Some f | _ \<Rightarrow> None)
      | _ \<Rightarrow> None)"

definition jsonFields ::
  "(string \<times> go_type \<times> struct_tag) list \<Rightarrow> (string \<times> go_type \<times> struct_tag) list" where
  "jsonFields flds =
     filter (\<lambda>f. dominantField flds (wireName f) = Some f) (filter candidateField flds)"

text \<open>
  The decoder of a single value into a field of a given type is the parameter \<open>dec\<close>: it
  takes the type, the JSON value and the field's current value.
\<close>

type_synonym value_decoder = "go_type \<Rightarrow> json \<Rightarrow> go_value \<Rightarrow> json_error + go_value"

definition fieldValue :: "(string \<times> go_value) list \<Rightarrow> string \<Rightarrow> go_type \<Rightarrow> go_value" where
  "fieldValue fv n t = (case map_of fv n of Some x \<Rightarrow> x | None \<Rightarrow> zeroValue t)"

definition paramStore ::
  "value_decoder \<Rightarrow> string \<times> go_type \<times> struct_tag \<Rightarrow> (string \<times> go_value) list field_store" where
  "paramStore dec f =
     (case f of (n, t, tag) \<Rightarrow>
        (wireName f,
         \<lambda>v fv. case dec t v (fieldValue fv n t) of
                   Inl e \<Rightarrow> Inl e
                 | Inr x \<Rightarrow> Inr (AList.update n x fv)))"

text \<open>
  \<open>inputValue := reflect.New(t)\<close> followed by \<open>json.Unmarshal(argsBytes, inputValue)\<close>:
  the value that \<open>inputValue\<close> points to afterwards, or the error.
\<close>

definition unmarshalParams :: "(string \<Rightarrow> string) \<Rightarrow> value_decoder \<Rightarrow> go_type \<Rightarrow> json option \<Rightarrow> json_error + go_value" where
  "unmarshalParams foldName dec t doc =
     (case t of
        TStruct vm pm flds \<Rightarrow>
          (case unmarshalStruct foldName (map (paramStore dec) (jsonFields flds)) doc (zeroFields flds) of
             Inl e \<Rightarrow> Inl e
           | Inr fv \<Rightarrow> Inr (VStruct fv))
      | _ \<Rightarrow> (case doc of None \<Rightarrow> Inl SyntaxError | Some j \<Rightarrow> dec t j (zeroValue t)))"

section \<open>Responses (protocol.go, rpc.go)\<close>

record ContentBlock =
  Type :: string
  Text :: string

record CallToolResult =
  Content :: "ContentBlock list"
  IsError :: bool

text \<open>
  The results that the router marshals. The tools of a list result come from a map
  iteration, whose order is not fixed: the result is the set of the definitions.
\<close>

datatype payload =
    InitializePayload InitializeResult
  | ListToolsPayload "Tool set"
  | CallToolPayload CallToolResult

text \<open>\<open>Data\<close> holds the text of the error passed to the writer (never an empty text).\<close>

record ErrorObject =
  Code :: int
  Message :: string
  Data :: "json_error option"

text \<open>
  A response envelope. \<open>Result\<close> is a raw message with \<open>omitempty\<close> and \<open>Error\<close> a pointer with
  \<open>omitempty\<close>: the member is on the wire exactly when the field is not \<open>None\<close>.
\<close>

record Response =
  resp_JSONRPC :: string
  resp_ID :: RequestID
  Result :: "payload option"
  Error :: "ErrorObject option"

datatype response_body = NoBody | TextBody string | Envelope Response

record http_response =
  StatusCode :: nat
  Header :: "(string \<times> string) list"
  Body :: response_body

text \<open>
  \<open>json.Marshal\<close> of a result: the bytes are represented by the result they encode, and
  encoding a result of these types does not fail.
\<close>

definition json_Marshal :: "payload \<Rightarrow> json_error + payload" where
  "json_Marshal result = Inr result"

text \<open>The writers take the headers already set on the response writer.\<close>

definition writeErrorResponse ::
  "(string \<times> string) list \<Rightarrow> RequestID \<Rightarrow> int \<Rightarrow> string \<Rightarrow> json_error option \<Rightarrow> http_response" where
  "writeErrorResponse hdr rid code message data =
     \<lparr>StatusCode = (if code = -32700 \<or> code = -32600 \<or> code = -32602 then 400
                    else if code = -32601 then 404 else 500),
      Header = AList.update ''Content-Type'' ''application/json'' hdr,
      Body = Envelope \<lparr>resp_JSONRPC = ''2.0'', resp_ID = rid, Result = None,
                       Error = Some \<lparr>Code = code, Message = message, Data = data\<rparr>\<rparr>\<rparr>"

definition writeSuccessResponse ::
  "(string \<times> string) list \<Rightarrow> RequestID \<Rightarrow> payload \<Rightarrow> http_response" where
  "writeSuccessResponse hdr rid result =
     (case json_Marshal result of
        Inl err \<Rightarrow>
          writeErrorResponse hdr rid (-32603)
            ''Internal server error: failed to marshal result'' (Some err)
      | Inr resultBytes \<Rightarrow>
          \<lparr>StatusCode = 200,
           Header = AList.update ''Content-Type'' ''application/json'' hdr,
           Body = Envelope \<lparr>resp_JSONRPC = ''2.0'', resp_ID = rid, Result = Some resultBytes,
                            Error = None\<rparr>\<rparr>)"

text \<open>\<open>http.Error\<close>: a plain text body with the status.\<close>

definition http_Error :: "string \<Rightarrow> nat \<Rightarrow> http_response" where
  "http_Error msg code =
     \<lparr>StatusCode = code,
      Header = [(''Content-Type'', ''text/plain; charset=utf-8''),
                (''X-Content-Type-Options'', ''nosniff'')],
      Body = TextBody (msg @ [CHR 0x0A])\<rparr>"

section \<open>Request handling (rpc.go, handlers)\<close>

text \<open>
  What handling one message does: the server afterwards, the response written or the
  panic that ended the handling, and the invocations of tool handlers (tool name and
  arguments): a call that panics inside \<open>reflect\<close> before the handler runs invokes none.
\<close>

datatype panic = ElemOfNonPointer | CallMismatch | NoResults | ResultNotAnError

datatype http_outcome = Responded http_response | Panicked panic

record step =
  srv :: Server
  out :: http_outcome
  calls :: "(string \<times> go_value list) list"

text \<open>\<open>fmt.Sprintf("session-%d", n)\<close>: the decimal digits of an integer.\<close>

definition digitChar :: "nat \<Rightarrow> char" where
  "digitChar d = char_of (48 + d)"

function itoaNat :: "nat \<Rightarrow> string" where
  "itoaNat n = (if n < 10 then [digitChar n] else itoaNat (n div 10) @ [digitChar (n mod 10)])"
  by pat_completeness auto
termination
  by (relation "measure id") auto

declare itoaNat.simps [simp del]

definition itoa :: "int \<Rightarrow> string" where
  "itoa i = (if i < 0 then CHR ''-'' # itoaNat (nat (- i)) else itoaNat (nat i))"

text \<open>
  \<open>handleInitialize\<close>. \<open>now\<close> is what \<open>time.Now().UnixNano()\<close> returns during the call.
\<close>

definition handleInitialize :: "(string \<Rightarrow> string) \<Rightarrow> int \<Rightarrow> Server \<Rightarrow> Request \<Rightarrow> step" where
  "handleInitialize foldName now s req =
     (case unmarshalInitializeRequest foldName (Params req) of
        Inl err \<Rightarrow>
          \<lparr>srv = s,
           out = Responded (writeErrorResponse [] (ID req) (-32602)
                              ''Invalid params for initialize'' (Some err)),
           calls = []\<rparr>
      | Inr initParams \<Rightarrow>
          (let negotiatedVersion = init_ProtocolVersion initParams;
               sessionID = ''session-'' @ itoa now;
               s' = s\<lparr>sessions := (sessions s)(sessionID \<mapsto>
                       \<lparr>session_ClientCapabilities = init_Capabilities initParams\<rparr>)\<rparr>;
               result = \<lparr>ProtocolVersion = negotiatedVersion, ServerInfo = info s,
                         Capabilities = capabilities s, Instructions = []\<rparr>
           in \<lparr>srv = s',
               out = Responded (writeSuccessResponse [(''Mcp-Session-Id'', sessionID)] (ID req)
                                  (InitializePayload result)),
               calls = []\<rparr>))"

definition handleListTools :: "Server \<Rightarrow> Request \<Rightarrow> step" where
  "handleListTools s req =
     \<lparr>srv = s,
      out = Responded (writeSuccessResponse [] (ID req)
                         (ListToolsPayload (tool_Definition ` ran (tools s)))),
      calls = []\<rparr>"

text \<open>
  \<open>reflect\<close> at the call: \<open>Elem\<close> panics on a type without element type; \<open>Call\<close> panics on
  a value that is no function, on a wrong number of arguments, and on an argument
  whose type is not assignable to the parameter type. \<open>context.Background()\<close> has a
  type with the methods of the context interface and \<open>String\<close>.
\<close>

definition reflect_Elem :: "go_type \<Rightarrow> go_type option" where
  "reflect_Elem t =
     (case t of TPtr e \<Rightarrow> Some e | TSlice e \<Rightarrow> Some e | TMap k v \<Rightarrow> Some v | _ \<Rightarrow> None)"

definition backgroundCtx :: go_type where
  "backgroundCtx = TStruct (contextContext @ [''String'']) [] []"

definition assignableTo :: "go_type \<Rightarrow> go_type \<Rightarrow> bool" where
  "assignableTo v t = (v = t \<or> (kind_of t = KInterface \<and> Implements v (methodSet t)))"

definition reflect_Call :: "handler \<Rightarrow> (go_type \<times> go_value) list \<Rightarrow> go_value list option" where
  "reflect_Call h args =
     (case vtype h of
        TFunc ins outs \<Rightarrow>
          if length args = length ins \<and> list_all2 assignableTo (map fst args) ins
          then Some (vcall h (map snd args))
          else None
      | _ \<Rightarrow> None)"

text \<open>
  The end of \<open>handleCallTool\<close>, from the results of the call: the last result is the
  error. \<open>IsNil\<close> or the assertion to \<open>error\<close> panics when it is neither nil nor an error.
  \<open>fmt_v\<close> is the rendering of a value by the verb \<open>%v\<close>.
\<close>

definition callResult :: "(go_value \<Rightarrow> string) \<Rightarrow> RequestID \<Rightarrow> go_value list \<Rightarrow> http_outcome" where
  "callResult fmt_v rid results =
     (if results = [] then Panicked NoResults
      else
        (case last results of
           VError m \<Rightarrow>
             Responded (writeSuccessResponse [] rid
               (CallToolPayload \<lparr>Content = [\<lparr>Type = ''text'', Text = m\<rparr>], IsError = True\<rparr>))
         | VNil \<Rightarrow>
             (let resultText = (if length results > 1 then fmt_v (hd results)
                                else ''Operation completed successfully.'')
              in Responded (writeSuccessResponse [] rid
                   (CallToolPayload \<lparr>Content = [\<lparr>Type = ''text'', Text = resultText\<rparr>],
                                     IsError = False\<rparr>)))
         | _ \<Rightarrow> Panicked ResultNotAnError))"

text \<open>\<open>handleCallTool\<close>.\<close>

definition handleCallTool ::
  "(string \<Rightarrow> string) \<Rightarrow> (go_value \<Rightarrow> string) \<Rightarrow> value_decoder \<Rightarrow> Server \<Rightarrow> Request \<Rightarrow> step" where
  "handleCallTool foldName fmt_v dec s req =
     (case unmarshalCallToolRequest foldName (Params req) of
        Inl err \<Rightarrow>
          \<lparr>srv = s,
           out = Responded (writeErrorResponse [] (ID req) (-32602)
                              ''Invalid params for tools/call'' (Some err)),
           calls = []\<rparr>
      | Inr callParams \<Rightarrow>
          (case tools s (call_Name callParams) of
             None \<Rightarrow>
               \<lparr>srv = s,
                out = Responded (writeErrorResponse [] (ID req) (-32602)
                                   (''Tool not found: '' @ call_Name callParams) None),
                calls = []\<rparr>
           | Some tool \<Rightarrow>
               (case reflect_Elem (inputType tool) of
                  None \<Rightarrow> \<lparr>srv = s, out = Panicked ElemOfNonPointer, calls = []\<rparr>
                | Some elemType \<Rightarrow>
                    (case unmarshalParams foldName dec elemType (marshalArguments (Arguments callParams)) of
                       Inl err \<Rightarrow>
                         \<lparr>srv = s,
                          out = Responded (writeErrorResponse [] (ID req) (-32602)
                                  (''Invalid arguments for tool '' @ call_Name callParams)
                                  (Some err)),
                          calls = []\<rparr>
                     | Inr inputValue \<Rightarrow>
                         (let callArgs =
                                (if takesContext tool then [(backgroundCtx, VContext)] else [])
                                @ [(inputType tool, VPtr inputValue)]
                          in case reflect_Call (handlerValue tool) callArgs of
                               None \<Rightarrow> \<lparr>srv = s, out = Panicked CallMismatch, calls = []\<rparr>
                             | Some results \<Rightarrow>
                                 \<lparr>srv = s, out = callResult fmt_v (ID req) results,
                                  calls = [(call_Name callParams, map snd callArgs)]\<rparr>)))))"

definition handleRequest ::
  "(string \<Rightarrow> string) \<Rightarrow> (go_value \<Rightarrow> string) \<Rightarrow> value_decoder \<Rightarrow> int \<Rightarrow> Server \<Rightarrow> Request \<Rightarrow> step" where
  "handleRequest foldName fmt_v dec now s req =
     (if Method req = ''initialize'' then handleInitialize foldName now s req
      else if Method req = ''tools/list'' then handleListTools s req
      else if Method req = ''tools/call'' then handleCallTool foldName fmt_v dec s req
      else \<lparr>srv = s,
            out = Responded (writeErrorResponse [] (ID req) (-32601) ''Method not found'' None),
            calls = []\<rparr>)"

definition handleNotification :: "Server \<Rightarrow> Notification \<Rightarrow> step" where
  "handleNotification s n =
     (if notif_Method n = ''notifications/initialized''
      then \<lparr>srv = s, out = Responded \<lparr>StatusCode = 202, Header = [], Body = NoBody\<rparr>, calls = []\<rparr>
      else \<lparr>srv = s, out = Responded \<lparr>StatusCode = 202, Header = [], Body = NoBody\<rparr>, calls = []\<rparr>)"

text \<open>An HTTP request: its method and its body, which may fail to be read.\<close>

datatype request_body = ReadError | Bytes "json option"

record http_request =
  httpMethod :: string
  httpBody :: request_body

definition handleMCPRequest ::
  "(string \<Rightarrow> string) \<Rightarrow> (go_value \<Rightarrow> string) \<Rightarrow> value_decoder \<Rightarrow> int \<Rightarrow> Server \<Rightarrow> http_request \<Rightarrow> step" where
  "handleMCPRequest foldName fmt_v dec now s r =
     (if httpMethod r = ''GET''
      then \<lparr>srv = s, out = Responded \<lparr>StatusCode = 200, Header = [], Body = NoBody\<rparr>, calls = []\<rparr>
      else if httpMethod r \<noteq> ''POST''
      then \<lparr>srv = s, out = Responded (http_Error ''Method not allowed'' 405), calls = []\<rparr>
      else
        (case httpBody r of
           ReadError \<Rightarrow>
             \<lparr>srv = s, out = Responded (http_Error ''Failed to read request body'' 500),
              calls = []\<rparr>
         | Bytes body \<Rightarrow>
             (case unmarshalRawMessage body of
                Inl err \<Rightarrow>
                  \<lparr>srv = s,
                   out = Responded (writeErrorResponse [] IDNil (-32700)
                                      ''Parse error: Invalid JSON'' (Some err)),
                   calls = []\<rparr>
              | Inr rawMessage \<Rightarrow>
                  if map_of rawMessage ''id'' \<noteq> None
                  then
                    (case unmarshalRequest foldName body of
                       Inl err \<Rightarrow>
                         \<lparr>srv = s,
                          out = Responded (writeErrorResponse [] IDNil (-32700)
                                  ''Parse error: Invalid Request structure'' (Some err)),
                          calls = []\<rparr>
                     | Inr req \<Rightarrow> handleRequest foldName fmt_v dec now s req)
                  else
                    (case unmarshalNotification foldName body of
                       Inl err \<Rightarrow>
                         \<lparr>srv = s,
                          out = Responded \<lparr>StatusCode = 400, Header = [], Body = NoBody\<rparr>,
                          calls = []\<rparr>
                     | Inr notif \<Rightarrow> handleNotification s notif))))"

section \<open>The handler shapes that registration accepts, in the words of the specification\<close>

text \<open>
  One parameter that does not implement the context interface and is a pointer to a
  struct (no cancellation token), or two parameters of which the first implements the
  context interface and the second is a pointer to a struct (cancellation token). The
  result is the value of \<open>acceptsCancellationToken\<close>, \<open>None\<close> for every other type.
\<close>

definition handlerShape :: "go_type \<Rightarrow> bool option" where
  "handlerShape t =
     (case t of
        TFunc ins outs \<Rightarrow>
          (case ins of
             [p] \<Rightarrow> if \<not> Implements p contextContext \<and> isPtrToStruct p then Some False else None
           | [c, p] \<Rightarrow> if Implements c contextContext \<and> isPtrToStruct p then Some True else None
           | _ \<Rightarrow> None)
      | _ \<Rightarrow> None)"

section \<open>The schema reflector\<close>

text \<open>
  Modelled from the spec: the reflector of the schema library
  (github.com/invopop/jsonschema, \<open>Reflector.Reflect\<close>), which is imported by
  schema\_generator.go and is not among the sources. Section 4.1 of the specification: a
  JSON Schema object document with one property per field of the parameter type, each
  property's machine type inferred from the field's primitive type (numeric, string,
  boolean, nested object). A property is named as the field is named on the wire: by
  the name part of its json tag, or by the field name when the tag has none.
\<close>

fun machineType :: "go_type \<Rightarrow> string" where
  "machineType TBool = ''boolean''"
| "machineType TInt = ''integer''"
| "machineType TFloat64 = ''number''"
| "machineType TString = ''string''"
| "machineType (TStruct vm pm fs) = ''object''"
| "machineType (TPtr t) = machineType t"
| "machineType (TSlice t) = ''array''"
| "machineType (TMap k v) = ''object''"
| "machineType (TFunc ins outs) = []"
| "machineType (TInterface ms) = []"

definition fieldProperty :: "string \<times> go_type \<times> struct_tag \<Rightarrow> string \<times> schema" where
  "fieldProperty f = (wireName f, Schema (machineType (fst (snd f))) [] None [])"

definition reflector_Reflect :: "go_type \<Rightarrow> schema" where
  "reflector_Reflect t =
     (case t of
        TStruct vm pm flds \<Rightarrow> Schema ''object'' [] (Some (map fieldProperty flds)) []
      | _ \<Rightarrow> Schema (machineType t) [] None [])"

section \<open>Example values\<close>

text \<open>
  The parameter struct of the calculator example (examples/calculator-server/main.go),
  a handler over it with the signature of the example's handlers, the error interface,
  and a struct type whose pointer has the four methods of the context interface.
\<close>

definition AddParams :: go_type where
  "AddParams = TStruct [] []
     [(''A'', TFloat64, [(''json'', ''a''), (''description'', ''The first number to add.'')]),
      (''B'', TFloat64, [(''json'', ''b''), (''description'', ''The second number to add.'')])]"

definition errorInterface :: go_type where
  "errorInterface = TInterface [''Error'']"

definition addHandler :: handler where
  "addHandler =
     \<lparr>vtype = TFunc [TInterface contextContext, TPtr AddParams] [TString, errorInterface],
      vcall = (\<lambda>args. [VString ''done'', VNil])\<rparr>"

definition namedTool :: "string \<Rightarrow> Tool" where
  "namedTool n = \<lparr>Name = n, Title = [], Description = [], InputSchema = None\<rparr>"

definition exampleServer :: Server where
  "exampleServer = NewServer ''GoCalculatorServer'' ''1.0.0''
     \<lparr>cap_Tools = Some False, cap_Resources = None, cap_Prompts = None, cap_Logging = None\<rparr>"

text \<open>A decoder of single values for the basic kinds, and a rendering of strings.\<close>

definition basicDecoder :: value_decoder where
  "basicDecoder t v cur =
     (case v of
        JNull \<Rightarrow> Inr cur
      | JBool b \<Rightarrow> if t = TBool then Inr (VBool b) else Inl UnmarshalTypeError
      | JNumber n \<Rightarrow>
          (case n of
             Some q \<Rightarrow> if t = TFloat64 then Inr (VFloat64 q) else Inl UnmarshalTypeError
           | None \<Rightarrow> Inl UnmarshalTypeError)
      | JString x \<Rightarrow> if t = TString then Inr (VString x) else Inl UnmarshalTypeError
      | _ \<Rightarrow> Inl UnmarshalTypeError)"

definition basicRender :: "go_value \<Rightarrow> string" where
  "basicRender v = (case v of VString x \<Rightarrow> x | _ \<Rightarrow> ''<nil>'')"



definition initializeParams :: json where
  "initializeParams =
     JObject [(''protocolVersion'', JString ''2025-06-18''),
              (''clientInfo'', JObject [(''name'', JString ''client''), (''version'', JString ''1'')]),
              (''capabilities'', JObject [(''roots'', JObject [])])]"

definition requestScoped :: go_type where
  "requestScoped = TStruct [] contextContext [(''Query'', TString, [(''json'', ''query'')])]"

text \<open>A handler whose first parameter is the pointer type that implements the context interface.\<close>

definition scopedHandler :: handler where
  "scopedHandler =
     \<lparr>vtype = TFunc [TPtr requestScoped, TPtr AddParams] [TString, errorInterface],
      vcall = (\<lambda>args. [VString ''done'', VNil])\<rparr>"

section \<open>Notions used to state the properties of the router\<close>

text \<open>The envelope of an outcome, if the outcome is a response with a JSON-RPC body.\<close>

definition envelopeOf :: "http_outcome \<Rightarrow> Response option" where
  "envelopeOf oc =
     (case oc of
        Responded resp \<Rightarrow> (case Body resp of Envelope e \<Rightarrow> Some e | _ \<Rightarrow> None)
      | Panicked p \<Rightarrow> None)"

text \<open>Exactly one of the members result and error is on the wire.\<close>

definition exactlyOneMember :: "Response \<Rightarrow> bool" where
  "exactlyOneMember e = ((Result e \<noteq> None) \<noteq> (Error e \<noteq> None))"

definition wellFormedOut :: "http_outcome \<Rightarrow> bool" where
  "wellFormedOut oc = (case envelopeOf oc of None \<Rightarrow> True | Some e \<Rightarrow> exactlyOneMember e)"

text \<open>The session identifier that a response carries in its header.\<close>

definition sessionIdOf :: "http_outcome \<Rightarrow> string option" where
  "sessionIdOf oc =
     (case oc of Responded resp \<Rightarrow> map_of (Header resp) ''Mcp-Session-Id'' | Panicked p \<Rightarrow> None)"

text \<open>
  The field that a key is decoded into, among the fields that the decoder fills, if
  any; for the parameter struct with the fields \<open>flds\<close> these are \<open>jsonFields flds\<close>.
\<close>

definition resolveField ::
  "(string \<Rightarrow> string) \<Rightarrow> (string \<times> go_type \<times> struct_tag) list \<Rightarrow> string \<Rightarrow> (string \<times> go_type \<times> struct_tag) option" where
  "resolveField foldName fs k =
     (case findField foldName (map wireName fs) k of
        None \<Rightarrow> None
      | Some w \<Rightarrow> find (\<lambda>f. wireName f = w) fs)"

definition targetField ::
  "(string \<Rightarrow> string) \<Rightarrow> (string \<times> go_type \<times> struct_tag) list \<Rightarrow> string \<Rightarrow> (string \<times> go_type \<times> struct_tag) option" where
  "targetField foldName flds k = resolveField foldName (jsonFields flds) k"

section \<open>Properties of registration\<close>

lemma generateSchemaForType_returns: "\<exists>sch. generateSchemaForType r t = Inr sch"
  unfolding generateSchemaForType_def Let_def
  by (cases "case t of TPtr e \<Rightarrow> e | _ \<Rightarrow> t") (simp_all add: json_MarshalIndent_def)

lemma reg_name_empty:
  "Name (Definition reg) = [] \<Longrightarrow> registerSingleTool r s reg = (s, Err NameMissing)"
  by (simp add: registerSingleTool_def)

lemma reg_nil_handler:
  "Name (Definition reg) \<noteq> [] \<Longrightarrow> Handler reg = None \<Longrightarrow>
   registerSingleTool r s reg = (s, Panic ''reflect: call of reflect.Value.Type on zero Value'')"
  by (simp add: registerSingleTool_def)

lemma reg_not_func:
  "Name (Definition reg) \<noteq> [] \<Longrightarrow> Handler reg = Some h \<Longrightarrow> kind_of (vtype h) \<noteq> KFunc \<Longrightarrow>
   registerSingleTool r s reg = (s, Err HandlerNotFunc)"
  by (cases "vtype h") (simp_all add: registerSingleTool_def)

lemma first_implements:
  "(case ins of [] \<Rightarrow> False | t # x \<Rightarrow> Implements t contextContext)
     = (ins \<noteq> [] \<and> Implements (hd ins) contextContext)"
  by (cases ins) simp_all

text \<open>The function case of \<open>registerSingleTool\<close>, as a chain of its three checks.\<close>

lemma reg_func:
  assumes "Name (Definition reg) \<noteq> []" "Handler reg = Some h" "vtype h = TFunc ins outs"
    "generateSchemaForType r (last ins) = Inr sch"
  shows "registerSingleTool r s reg =
    (if length ins \<noteq> (if ins \<noteq> [] \<and> Implements (hd ins) contextContext then 2 else 1)
     then (s, Err (WrongArgCount (if ins \<noteq> [] \<and> Implements (hd ins) contextContext then 2 else 1) (length ins)))
     else if \<not> isPtrToStruct (last ins) then (s, Err (NotPtrToStruct (last ins)))
     else if tools s (Name (Definition reg)) \<noteq> None
     then (s, Err (AlreadyRegistered (Name (Definition reg))))
     else (s\<lparr>tools := (tools s)(Name (Definition reg) \<mapsto>
              \<lparr>tool_Definition = (Definition reg)\<lparr>InputSchema := Some sch\<rparr>, handlerValue = h,
               inputType = last ins,
               takesContext = (ins \<noteq> [] \<and> Implements (hd ins) contextContext)\<rparr>)\<rparr>, Ok))"
  using assms unfolding registerSingleTool_def Let_def first_implements by simp

lemma reg_cases:
  obtains
    (name) "Name (Definition reg) = []" "registerSingleTool r s reg = (s, Err NameMissing)"
  | (nil) "Name (Definition reg) \<noteq> []" "Handler reg = None"
      "registerSingleTool r s reg = (s, Panic ''reflect: call of reflect.Value.Type on zero Value'')"
  | (rejected) h e where "Name (Definition reg) \<noteq> []" "Handler reg = Some h"
      "registerSingleTool r s reg = (s, Err e)"
  | (accepted) h ins outs sch where "Name (Definition reg) \<noteq> []" "Handler reg = Some h"
      "vtype h = TFunc ins outs" "generateSchemaForType r (last ins) = Inr sch"
      "tools s (Name (Definition reg)) = None" "isPtrToStruct (last ins)" "ins \<noteq> []"
      "length ins = (if Implements (hd ins) contextContext then 2 else 1)"
      "registerSingleTool r s reg =
         (s\<lparr>tools := (tools s)(Name (Definition reg) \<mapsto>
              \<lparr>tool_Definition = (Definition reg)\<lparr>InputSchema := Some sch\<rparr>, handlerValue = h,
               inputType = last ins,
               takesContext = Implements (hd ins) contextContext\<rparr>)\<rparr>, Ok)"
proof (cases "Name (Definition reg) = []")
  case True
  then show ?thesis using name reg_name_empty by blast
next
  case nonempty: False
  show ?thesis
  proof (cases "Handler reg")
    case None
    then show ?thesis using nil nonempty reg_nil_handler by blast
  next
    case (Some h)
    show ?thesis
    proof (cases "kind_of (vtype h) = KFunc")
      case False
      then show ?thesis using rejected nonempty Some reg_not_func by blast
    next
      case True
      then obtain ins outs where ty: "vtype h = TFunc ins outs"
        by (cases "vtype h") simp_all
      obtain sch where sch: "generateSchemaForType r (last ins) = Inr sch"
        using generateSchemaForType_returns by blast
      note f = reg_func [OF nonempty Some ty sch, of s]
      show ?thesis
      proof (cases "length ins = (if ins \<noteq> [] \<and> Implements (hd ins) contextContext then 2 else 1)
                    \<and> isPtrToStruct (last ins) \<and> tools s (Name (Definition reg)) = None")
        case False
        then have "\<exists>e. registerSingleTool r s reg = (s, Err e)"
          unfolding f by (auto split: if_splits)
        then show ?thesis using rejected nonempty Some by blast
      next
        case True
        then have ne: "ins \<noteq> []" by (auto split: if_splits)
        from True have t1: "tools s (Name (Definition reg)) = None"
          and t2: "isPtrToStruct (last ins)" by simp_all
        from True ne have len: "length ins = (if Implements (hd ins) contextContext then 2 else 1)"
          by simp
        from True ne have res: "registerSingleTool r s reg =
         (s\<lparr>tools := (tools s)(Name (Definition reg) \<mapsto>
              \<lparr>tool_Definition = (Definition reg)\<lparr>InputSchema := Some sch\<rparr>, handlerValue = h,
               inputType = last ins,
               takesContext = Implements (hd ins) contextContext\<rparr>)\<rparr>, Ok)"
          unfolding f by simp
        show ?thesis by (rule accepted [OF nonempty Some ty sch t1 t2 ne len res])
      qed
    qed
  qed
qed

lemma reg_ok_commits:
  assumes "registerSingleTool r s reg = (s', Ok)"
  shows "tools s (Name (Definition reg)) = None \<and>
    (\<exists>t. s' = s\<lparr>tools := (tools s)(Name (Definition reg) \<mapsto> t)\<rparr> \<and>
         tool_Definition t = (Definition reg)\<lparr>InputSchema := InputSchema (tool_Definition t)\<rparr> \<and>
         Handler reg = Some (handlerValue t) \<and> isPtrToStruct (inputType t))"
  by (cases rule: reg_cases [where reg=reg and r=r and s=s]) (use assms in auto)

lemma reg_not_ok_unchanged:
  "snd (registerSingleTool r s reg) \<noteq> Ok \<Longrightarrow> fst (registerSingleTool r s reg) = s"
  by (cases rule: reg_cases [where reg=reg and r=r and s=s]) auto

lemma reg_present:
  assumes "tools s (Name (Definition reg)) \<noteq> None"
  shows "fst (registerSingleTool r s reg) = s \<and> snd (registerSingleTool r s reg) \<noteq> Ok \<and>
         (Handler reg \<noteq> None \<longrightarrow> (\<exists>e. snd (registerSingleTool r s reg) = Err e))"
  by (cases rule: reg_cases [where reg=reg and r=r and s=s]) (use assms in auto)

text \<open>
  No overwrite on duplicate. Let a registration be committed and let a second
  registration bear the same name (which is then non-empty). The second call leaves
  the server as it was and does not succeed; it returns a registration error whenever
  its handler is not the nil interface, and that error is the duplicate error whenever
  the second registration would have been accepted on its own. The registry afterwards
  holds under the name the first tool's definition (with its generated input schema)
  and the first handler.
\<close>

theorem registerSingleTool_duplicate:
  assumes first: "registerSingleTool r s reg1 = (s1, Ok)"
    and same: "Name (Definition reg2) = Name (Definition reg1)"
  shows "Name (Definition reg1) \<noteq> [] \<and>
         fst (registerSingleTool r s1 reg2) = s1 \<and>
         snd (registerSingleTool r s1 reg2) \<noteq> Ok \<and>
         (Handler reg2 \<noteq> None \<longrightarrow> (\<exists>e. snd (registerSingleTool r s1 reg2) = Err e)) \<and>
         (snd (registerSingleTool r s reg2) = Ok \<longrightarrow>
            snd (registerSingleTool r s1 reg2) = Err (AlreadyRegistered (Name (Definition reg1)))) \<and>
         (\<exists>t. tools (fst (registerSingleTool r s1 reg2)) (Name (Definition reg1)) = Some t \<and>
              tool_Definition t = (Definition reg1)\<lparr>InputSchema := InputSchema (tool_Definition t)\<rparr> \<and>
              Handler reg1 = Some (handlerValue t))"
proof -
  from reg_ok_commits [OF first] obtain t where
    s1: "s1 = s\<lparr>tools := (tools s)(Name (Definition reg1) \<mapsto> t)\<rparr>"
    and t: "tool_Definition t = (Definition reg1)\<lparr>InputSchema := InputSchema (tool_Definition t)\<rparr>"
       "Handler reg1 = Some (handlerValue t)"
    by blast
  have present: "tools s1 (Name (Definition reg2)) \<noteq> None"
    using s1 same by simp
  note p = reg_present [OF present, of r]
  have ne: "Name (Definition reg1) \<noteq> []"
    by (cases rule: reg_cases [where reg=reg1 and r=r and s=s]) (use first in auto)
  have dup: "snd (registerSingleTool r s1 reg2) = Err (AlreadyRegistered (Name (Definition reg1)))"
    if ok: "snd (registerSingleTool r s reg2) = Ok"
  proof (cases rule: reg_cases [where reg=reg2 and r=r and s=s])
    case (accepted h ins outs sch)
    from reg_func [OF accepted(1-4), of s1] accepted(6-8) present same
    show ?thesis by (simp split: if_splits)
  qed (use ok in auto)
  have stored: "tools s1 (Name (Definition reg1)) = Some t"
    using s1 by simp
  show ?thesis using p ne dup stored t by simp
qed

theorem registerSingleTool_duplicate_witness:
  "fst (registerSingleTool reflector_Reflect
          (fst (registerSingleTool reflector_Reflect exampleServer
                  \<lparr>Definition = namedTool ''calculator/add'', Handler = Some addHandler\<rparr>))
          \<lparr>Definition = (namedTool ''calculator/add'')\<lparr>Title := ''Second''\<rparr>,
           Handler = Some addHandler\<rparr>)
     = fst (registerSingleTool reflector_Reflect exampleServer
              \<lparr>Definition = namedTool ''calculator/add'', Handler = Some addHandler\<rparr>)
   \<and> snd (registerSingleTool reflector_Reflect
          (fst (registerSingleTool reflector_Reflect exampleServer
                  \<lparr>Definition = namedTool ''calculator/add'', Handler = Some addHandler\<rparr>))
          \<lparr>Definition = (namedTool ''calculator/add'')\<lparr>Title := ''Second''\<rparr>,
           Handler = Some addHandler\<rparr>)
     = Err (AlreadyRegistered ''calculator/add'')"
proof -
  let ?reg1 = "\<lparr>Definition = namedTool ''calculator/add'', Handler = Some addHandler\<rparr>"
  let ?reg2 = "\<lparr>Definition = (namedTool ''calculator/add'')\<lparr>Title := ''Second''\<rparr>,
                Handler = Some addHandler\<rparr>"
  have ok: "snd (registerSingleTool reflector_Reflect exampleServer ?reg1) = Ok"
    by (simp add: registerSingleTool_def namedTool_def addHandler_def AddParams_def
        exampleServer_def NewServer_def Implements_def contextContext_def isPtrToStruct_def
        generateSchemaForType_def json_MarshalIndent_def Let_def)
  have ok2: "snd (registerSingleTool reflector_Reflect exampleServer ?reg2) = Ok"
    by (simp add: registerSingleTool_def namedTool_def addHandler_def AddParams_def
        exampleServer_def NewServer_def Implements_def contextContext_def isPtrToStruct_def
        generateSchemaForType_def json_MarshalIndent_def Let_def)
  have first: "registerSingleTool reflector_Reflect exampleServer ?reg1
     = (fst (registerSingleTool reflector_Reflect exampleServer ?reg1), Ok)"
    using ok by (simp add: prod_eq_iff)
  have same: "Name (Definition ?reg2) = Name (Definition ?reg1)"
    by (simp add: namedTool_def)
  from registerSingleTool_duplicate [OF first same] ok2 show ?thesis
    by (simp add: namedTool_def)
qed

text \<open>
  Claim C2 (the second registration under a name fails with a registration error)
  against the code: after \<open>calculator/add\<close> is registered, a second registration under
  the same name whose handler is the nil interface does not return a registration
  error. \<open>reflect.ValueOf\<close> of the nil interface is the zero Value and its \<open>Type()\<close>
  panics before the check that the handler is a function. The registry still holds the
  first tool.
\<close>

theorem registerSingleTool_duplicate_nil_handler_panics:
  "snd (registerSingleTool reflector_Reflect exampleServer
          \<lparr>Definition = namedTool ''calculator/add'', Handler = Some addHandler\<rparr>) = Ok
   \<and> registerSingleTool reflector_Reflect
         (fst (registerSingleTool reflector_Reflect exampleServer
                 \<lparr>Definition = namedTool ''calculator/add'', Handler = Some addHandler\<rparr>))
         \<lparr>Definition = namedTool ''calculator/add'', Handler = None\<rparr>
     = (fst (registerSingleTool reflector_Reflect exampleServer
               \<lparr>Definition = namedTool ''calculator/add'', Handler = Some addHandler\<rparr>),
        Panic ''reflect: call of reflect.Value.Type on zero Value'')
   \<and> (\<exists>t. tools (fst (registerSingleTool reflector_Reflect exampleServer
                 \<lparr>Definition = namedTool ''calculator/add'', Handler = Some addHandler\<rparr>))
             ''calculator/add'' = Some t \<and> handlerValue t = addHandler)"
proof -
  have ok: "snd (registerSingleTool reflector_Reflect exampleServer
          \<lparr>Definition = namedTool ''calculator/add'', Handler = Some addHandler\<rparr>) = Ok"
    by (simp add: registerSingleTool_def namedTool_def addHandler_def AddParams_def
        exampleServer_def NewServer_def Implements_def contextContext_def isPtrToStruct_def
        generateSchemaForType_def json_MarshalIndent_def Let_def)
  have stored: "\<exists>t. tools (fst (registerSingleTool reflector_Reflect exampleServer
                 \<lparr>Definition = namedTool ''calculator/add'', Handler = Some addHandler\<rparr>))
             ''calculator/add'' = Some t \<and> handlerValue t = addHandler"
    by (simp add: registerSingleTool_def namedTool_def addHandler_def AddParams_def
        exampleServer_def NewServer_def Implements_def contextContext_def isPtrToStruct_def
        generateSchemaForType_def json_MarshalIndent_def Let_def)
  have nil: "registerSingleTool reflector_Reflect s
         \<lparr>Definition = namedTool ''calculator/add'', Handler = None\<rparr>
     = (s, Panic ''reflect: call of reflect.Value.Type on zero Value'')" for s
    by (rule reg_nil_handler) (simp_all add: namedTool_def)
  from ok stored nil show ?thesis by simp
qed

text \<open>
  Claim C3, as amended (handler shapes). For a registration with a non-empty name that
  is not yet in the registry and a handler that is not the nil interface:
  the registration is accepted exactly for the shapes of \<open>handlerShape\<close>, the stored
  cancellation-token flag is the one \<open>handlerShape\<close> gives, and every other handler type
  is rejected with a registration error that leaves the server unchanged. A single
  parameter that itself implements the context interface is not an accepted shape.
\<close>

theorem registerSingleTool_handler_shape:
  assumes "Name (Definition reg) \<noteq> []" "Handler reg = Some h"
    "tools s (Name (Definition reg)) = None"
  shows "(case handlerShape (vtype h) of
            Some tc \<Rightarrow>
              snd (registerSingleTool r s reg) = Ok \<and>
              (\<exists>t. tools (fst (registerSingleTool r s reg)) (Name (Definition reg)) = Some t \<and>
                   takesContext t = tc \<and> handlerValue t = h)
          | None \<Rightarrow>
              fst (registerSingleTool r s reg) = s \<and>
              (\<exists>e. snd (registerSingleTool r s reg) = Err e))"
proof (cases "kind_of (vtype h) = KFunc")
  case False
  then have "handlerShape (vtype h) = None"
    by (cases "vtype h") (simp_all add: handlerShape_def)
  then show ?thesis using reg_not_func [OF assms(1,2) False] by simp
next
  case True
  then obtain ins outs where ty: "vtype h = TFunc ins outs"
    by (cases "vtype h") simp_all
  obtain sch where sch: "generateSchemaForType r (last ins) = Inr sch"
    using generateSchemaForType_returns by blast
  note f = reg_func [OF assms(1,2) ty sch, of s]
  consider (none) "ins = []" | (one) p where "ins = [p]" | (two) c p where "ins = [c, p]"
    | (more) a b c rest where "ins = a # b # c # rest"
    by (cases ins rule: list.exhaust; cases "tl ins"; cases "tl (tl ins)") auto
  then show ?thesis
  proof cases
    case none
    then show ?thesis unfolding f using ty by (simp add: handlerShape_def)
  next
    case one
    then show ?thesis unfolding f using ty assms(3) by (simp add: handlerShape_def)
  next
    case two
    then show ?thesis unfolding f using ty assms(3) by (simp add: handlerShape_def)
  next
    case more
    then show ?thesis unfolding f using ty by (simp add: handlerShape_def)
  qed
qed

theorem registerSingleTool_handler_shape_witness:
  "snd (registerSingleTool reflector_Reflect exampleServer
          \<lparr>Definition = namedTool ''calculator/add'', Handler = Some addHandler\<rparr>) = Ok
   \<and> (\<exists>t. tools (fst (registerSingleTool reflector_Reflect exampleServer
          \<lparr>Definition = namedTool ''calculator/add'', Handler = Some addHandler\<rparr>))
          ''calculator/add'' = Some t \<and> takesContext t = True \<and> handlerValue t = addHandler)
   \<and> (\<exists>e. snd (registerSingleTool reflector_Reflect exampleServer
          \<lparr>Definition = namedTool ''calculator/add'',
           Handler = Some (addHandler\<lparr>vtype := TFunc [TPtr AddParams, TPtr AddParams] [errorInterface]\<rparr>)\<rparr>)
        = Err e)"
proof -
  have shape1: "handlerShape (vtype addHandler) = Some True"
    by (simp add: handlerShape_def addHandler_def AddParams_def Implements_def
        contextContext_def isPtrToStruct_def)
  have shape2: "handlerShape (vtype (addHandler\<lparr>vtype := TFunc [TPtr AddParams, TPtr AddParams]
                  [errorInterface]\<rparr>)) = None"
    by (simp add: handlerShape_def AddParams_def Implements_def contextContext_def)
  have free: "tools exampleServer ''calculator/add'' = None"
    by (simp add: exampleServer_def NewServer_def)
  from registerSingleTool_handler_shape [of
      "\<lparr>Definition = namedTool ''calculator/add'', Handler = Some addHandler\<rparr>" addHandler
      exampleServer reflector_Reflect]
    registerSingleTool_handler_shape [of
      "\<lparr>Definition = namedTool ''calculator/add'',
        Handler = Some (addHandler\<lparr>vtype := TFunc [TPtr AddParams, TPtr AddParams] [errorInterface]\<rparr>)\<rparr>"
      "addHandler\<lparr>vtype := TFunc [TPtr AddParams, TPtr AddParams] [errorInterface]\<rparr>"
      exampleServer reflector_Reflect]
    shape1 shape2 free
  show ?thesis by (simp add: namedTool_def)
qed

text \<open>
  Claim C3 as stated fails: a handler with exactly one parameter, a pointer to a struct
  whose method set has the four methods of the context interface, is rejected (two
  arguments expected, one found).
\<close>

theorem registerSingleTool_one_context_parameter_rejected:
  "isPtrToStruct (TPtr requestScoped)
   \<and> registerSingleTool reflector_Reflect exampleServer
       \<lparr>Definition = namedTool ''lookup'',
        Handler = Some \<lparr>vtype = TFunc [TPtr requestScoped] [TString, errorInterface],
                        vcall = (\<lambda>args. [VString ''done'', VNil])\<rparr>\<rparr>
     = (exampleServer, Err (WrongArgCount 2 1))"
  by (simp add: registerSingleTool_def namedTool_def requestScoped_def isPtrToStruct_def
      Implements_def contextContext_def)

text \<open>
  Claim C1 (atomic batch registration) against the code: in a batch of five whose third
  registration has a handler that is not a function, \<open>RegisterTools\<close> returns the error
  for the third tool, and the first two tools of the batch are in the registry
  afterwards (the last two are not).
\<close>

theorem RegisterTools_keeps_earlier_tools:
  "snd (RegisterTools r exampleServer
     [\<lparr>Definition = namedTool ''t1'', Handler = Some addHandler\<rparr>,
      \<lparr>Definition = namedTool ''t2'', Handler = Some addHandler\<rparr>,
      \<lparr>Definition = namedTool ''t3'', Handler = Some (addHandler\<lparr>vtype := TString\<rparr>)\<rparr>,
      \<lparr>Definition = namedTool ''t4'', Handler = Some addHandler\<rparr>,
      \<lparr>Definition = namedTool ''t5'', Handler = Some addHandler\<rparr>])
     = Err (RegisterFailed ''t3'' HandlerNotFunc)
   \<and> map (\<lambda>n. tools (fst (RegisterTools r exampleServer
     [\<lparr>Definition = namedTool ''t1'', Handler = Some addHandler\<rparr>,
      \<lparr>Definition = namedTool ''t2'', Handler = Some addHandler\<rparr>,
      \<lparr>Definition = namedTool ''t3'', Handler = Some (addHandler\<lparr>vtype := TString\<rparr>)\<rparr>,
      \<lparr>Definition = namedTool ''t4'', Handler = Some addHandler\<rparr>,
      \<lparr>Definition = namedTool ''t5'', Handler = Some addHandler\<rparr>])) n \<noteq> None)
       [''t1'', ''t2'', ''t3'', ''t4'', ''t5'']
     = [True, True, False, False, False]"
  by (simp add: registerSingleTool_def namedTool_def addHandler_def AddParams_def
      exampleServer_def NewServer_def Implements_def contextContext_def isPtrToStruct_def
      generateSchemaForType_def json_MarshalIndent_def Let_def)

section \<open>Properties of schema generation\<close>

lemma propertyName_a_b: "propertyName ''a'' = ''a''" "propertyName ''b'' = ''b''"
  by (simp_all add: propertyName_def)

text \<open>
  Claim C4 (schema synthesis). For a parameter struct with two numeric fields whose json
  tags are \<open>a\<close> and \<open>b\<close>, given as the struct type or as a pointer to it, generation
  succeeds; the schema's properties are exactly \<open>a\<close> and \<open>b\<close>, in this order, each of a
  numeric machine type and each described by the description tag of its field, and both
  names are in the required list.
\<close>

theorem generateSchemaForType_two_numeric_fields:
  assumes numeric: "ta \<in> {TInt, TFloat64}" "tb \<in> {TInt, TFloat64}"
    and json: "tag_Get tagA ''json'' = ''a''" "tag_Get tagB ''json'' = ''b''"
    and t: "t = TStruct vm pm [(na, ta, tagA), (nb, tb, tagB)] \<or>
            t = TPtr (TStruct vm pm [(na, ta, tagA), (nb, tb, tagB)])"
  shows "\<exists>pa pb req.
           generateSchemaForType reflector_Reflect t
             = Inr (Schema ''object'' [] (Some [(''a'', pa), (''b'', pb)]) req) \<and>
           schDescription pa = tag_Get tagA ''description'' \<and>
           schDescription pb = tag_Get tagB ''description'' \<and>
           schType pa \<in> {''integer'', ''number''} \<and> schType pb \<in> {''integer'', ''number''} \<and>
           ''a'' \<in> set req \<and> ''b'' \<in> set req"
proof -
  let ?flds = "[(na, ta, tagA), (nb, tb, tagB)]"
  let ?S = "TStruct vm pm ?flds"
  let ?pa = "Schema (machineType ta) (tag_Get tagA ''description'') None []"
  let ?pb = "Schema (machineType tb) (tag_Get tagB ''description'') None []"
  have refl: "reflector_Reflect ?S
      = Schema ''object'' [] (Some [(''a'', Schema (machineType ta) [] None []),
                                    (''b'', Schema (machineType tb) [] None [])]) []"
    using json by (simp add: reflector_Reflect_def fieldProperty_def wireName_def propertyName_a_b)
  have descr: "addDescriptions ?flds [(''a'', Schema (machineType ta) [] None []),
                                      (''b'', Schema (machineType tb) [] None [])]
      = [(''a'', ?pa), (''b'', ?pb)]"
    using json by (simp add: propertyName_a_b setDescription_def Let_def)
  have req: "addRequired ?flds [] = [''a'', ''b'']"
    using json by (simp add: propertyName_a_b Let_def)
  have gen: "generateSchemaForType reflector_Reflect ?S
      = Inr (Schema ''object'' [] (Some [(''a'', ?pa), (''b'', ?pb)]) [''a'', ''b''])"
    unfolding generateSchemaForType_def Let_def
    by (simp add: refl describeProperties_def markRequired_def descr req json_MarshalIndent_def
        del: addDescriptions.simps addRequired.simps)
  have ptr: "generateSchemaForType reflector_Reflect (TPtr ?S)
      = generateSchemaForType reflector_Reflect ?S"
    by (simp add: generateSchemaForType_def)
  have types: "machineType ta \<in> {''integer'', ''number''}" "machineType tb \<in> {''integer'', ''number''}"
    using numeric by auto
  from t gen ptr have "generateSchemaForType reflector_Reflect t
      = Inr (Schema ''object'' [] (Some [(''a'', ?pa), (''b'', ?pb)]) [''a'', ''b''])"
    by auto
  with types show ?thesis by simp
qed

theorem generateSchemaForType_two_numeric_fields_witness:
  "generateSchemaForType reflector_Reflect (TPtr AddParams)
     = Inr (Schema ''object'' []
             (Some [(''a'', Schema ''number'' ''The first number to add.'' None []),
                    (''b'', Schema ''number'' ''The second number to add.'' None [])])
             [''a'', ''b''])"
proof -
  from generateSchemaForType_two_numeric_fields [of TFloat64 TFloat64
      "[(''json'', ''a''), (''description'', ''The first number to add.'')]"
      "[(''json'', ''b''), (''description'', ''The second number to add.'')]"
      "TPtr AddParams" "[]" "[]" "''A''" "''B''"]
  obtain pa pb req where
    "generateSchemaForType reflector_Reflect (TPtr AddParams)
       = Inr (Schema ''object'' [] (Some [(''a'', pa), (''b'', pb)]) req)"
    by (auto simp: AddParams_def tag_Get_def)
  moreover have "generateSchemaForType reflector_Reflect (TPtr AddParams)
     = Inr (Schema ''object'' []
             (Some [(''a'', Schema ''number'' ''The first number to add.'' None []),
                    (''b'', Schema ''number'' ''The second number to add.'' None [])])
             [''a'', ''b''])"
    by (simp add: generateSchemaForType_def AddParams_def reflector_Reflect_def
        fieldProperty_def wireName_def propertyName_def tag_Get_def describeProperties_def
        markRequired_def setDescription_def json_MarshalIndent_def Let_def)
  ultimately show ?thesis by simp
qed

section \<open>Properties of the router\<close>

lemmas decode_defs = unmarshalRequest_def unmarshalNotification_def unmarshalRawMessage_def
  unmarshalStruct_def requestFields_def notificationFields_def storeString_def findField_def
  RequestID_UnmarshalJSON_def unmarshalString_def unmarshalFloat64_def
  unmarshalCallToolRequest_def callToolRequestFields_def storeArguments_def toMap_def
  unmarshalInitializeRequest_def initializeRequestFields_def implementationInfoFields_def
  clientCapabilitiesFields_def storeStruct_def storeEmptyStructPtr_def

lemmas router_defs = handleMCPRequest_def handleRequest_def handleNotification_def
  handleListTools_def handleCallTool_def handleInitialize_def writeErrorResponse_def
  writeSuccessResponse_def json_Marshal_def http_Error_def

lemma envelopeOf_writeError:
  "envelopeOf (Responded (writeErrorResponse h i c m d))
     = Some \<lparr>resp_JSONRPC = ''2.0'', resp_ID = i, Result = None,
             Error = Some \<lparr>Code = c, Message = m, Data = d\<rparr>\<rparr>"
  by (simp add: envelopeOf_def writeErrorResponse_def)

lemma envelopeOf_writeSuccess:
  "envelopeOf (Responded (writeSuccessResponse h i p))
     = Some \<lparr>resp_JSONRPC = ''2.0'', resp_ID = i, Result = Some p, Error = None\<rparr>"
  by (simp add: envelopeOf_def writeSuccessResponse_def json_Marshal_def)

lemma wf_error: "wellFormedOut (Responded (writeErrorResponse h i c m d))"
  by (simp add: wellFormedOut_def envelopeOf_writeError exactlyOneMember_def)

lemma wf_success: "wellFormedOut (Responded (writeSuccessResponse h i p))"
  by (simp add: wellFormedOut_def envelopeOf_writeSuccess exactlyOneMember_def)

lemma wf_panic: "wellFormedOut (Panicked p)"
  by (simp add: wellFormedOut_def envelopeOf_def)

lemma wf_plain: "wellFormedOut (Responded \<lparr>StatusCode = c, Header = h, Body = NoBody\<rparr>)"
  "wellFormedOut (Responded (http_Error m c))"
  by (simp_all add: wellFormedOut_def envelopeOf_def http_Error_def)

lemma wf_callResult: "wellFormedOut (callResult fmt_v i results)"
  by (cases "last results") (simp_all add: callResult_def wf_success wf_panic Let_def)

lemma wf_handleCallTool: "wellFormedOut (out (handleCallTool foldName fmt_v dec s req))"
  by (simp add: handleCallTool_def wf_error wf_panic wf_callResult Let_def
      split: sum.splits option.splits)

lemma wf_handleInitialize: "wellFormedOut (out (handleInitialize foldName now s req))"
  by (simp add: handleInitialize_def wf_error wf_success Let_def split: sum.splits)

lemma wf_handleRequest: "wellFormedOut (out (handleRequest foldName fmt_v dec now s req))"
  by (simp add: handleRequest_def wf_handleCallTool wf_handleInitialize handleListTools_def
      wf_error wf_success)

lemma wf_handleMCPRequest: "wellFormedOut (out (handleMCPRequest foldName fmt_v dec now s r))"
  by (simp add: handleMCPRequest_def wf_handleRequest handleNotification_def wf_error wf_plain
      split: request_body.splits sum.splits)


text \<open>
  Claim C7 (one of result and error). Whatever the request, if the router answers with
  a JSON-RPC envelope then the envelope has exactly one of the members result and
  error; the success writer sets result and leaves error absent, the error writer sets
  error and leaves result absent.
\<close>

theorem response_has_exactly_one_member:
  "wellFormedOut (out (handleMCPRequest foldName fmt_v dec now s r)) \<and>
   (\<exists>e. envelopeOf (Responded (writeSuccessResponse h i p)) = Some e \<and>
        Result e \<noteq> None \<and> Error e = None) \<and>
   (\<exists>e. envelopeOf (Responded (writeErrorResponse h i c m d)) = Some e \<and>
        Result e = None \<and> Error e \<noteq> None)"
  by (simp add: wf_handleMCPRequest envelopeOf_writeSuccess envelopeOf_writeError)

theorem response_has_exactly_one_member_witness:
  "envelopeOf (out (handleMCPRequest asciiFold basicRender basicDecoder 0 exampleServer
      \<lparr>httpMethod = ''POST'',
       httpBody = Bytes (Some (JObject [(''id'', JNumber (Some 1)),
                                        (''method'', JString ''tools/list'')]))\<rparr>))
     = Some \<lparr>resp_JSONRPC = ''2.0'', resp_ID = IDNumber 1,
             Result = Some (ListToolsPayload {}), Error = None\<rparr>
   \<and> exactlyOneMember \<lparr>resp_JSONRPC = ''2.0'', resp_ID = IDNumber 1,
             Result = Some (ListToolsPayload {}), Error = None\<rparr>"
proof -
  have e: "envelopeOf (out (handleMCPRequest asciiFold basicRender basicDecoder 0 exampleServer
      \<lparr>httpMethod = ''POST'',
       httpBody = Bytes (Some (JObject [(''id'', JNumber (Some 1)),
                                        (''method'', JString ''tools/list'')]))\<rparr>))
     = Some \<lparr>resp_JSONRPC = ''2.0'', resp_ID = IDNumber 1,
             Result = Some (ListToolsPayload {}), Error = None\<rparr>"
    by (simp add: decode_defs router_defs envelopeOf_def exampleServer_def NewServer_def)
  from response_has_exactly_one_member [of asciiFold basicRender basicDecoder 0 exampleServer
      "\<lparr>httpMethod = ''POST'',
        httpBody = Bytes (Some (JObject [(''id'', JNumber (Some 1)),
                                         (''method'', JString ''tools/list'')]))\<rparr>"]
  show ?thesis unfolding wellFormedOut_def e by simp
qed

text \<open>
  Unknown tool, from the decoded request on. A tools/call request whose parameters
  decode and name a tool that is not in the registry is answered with the JSON-RPC
  error -32602 under the id of the decoded request (HTTP status 400); no handler is
  invoked, and the server, registry and sessions included, is unchanged.
\<close>

theorem handleRequest_unknown_tool:
  assumes "Method req = ''tools/call''"
    and "unmarshalCallToolRequest foldName (Params req) = Inr cp"
    and "tools s (call_Name cp) = None"
  shows "handleRequest foldName fmt_v dec now s req =
     \<lparr>srv = s,
      out = Responded
        \<lparr>StatusCode = 400, Header = [(''Content-Type'', ''application/json'')],
         Body = Envelope
           \<lparr>resp_JSONRPC = ''2.0'', resp_ID = ID req, Result = None,
            Error = Some \<lparr>Code = - 32602, Message = ''Tool not found: '' @ call_Name cp,
                          Data = None\<rparr>\<rparr>\<rparr>,
      calls = []\<rparr>"
  using assms by (simp add: handleRequest_def handleCallTool_def writeErrorResponse_def)

theorem handleRequest_unknown_tool_witness:
  "handleRequest asciiFold basicRender basicDecoder 0 exampleServer
     \<lparr>JSONRPC = ''2.0'', ID = IDNumber 7, Method = ''tools/call'',
      Params = Some (JObject [(''name'', JString ''missing'')])\<rparr>
   = \<lparr>srv = exampleServer,
      out = Responded
        \<lparr>StatusCode = 400, Header = [(''Content-Type'', ''application/json'')],
         Body = Envelope
           \<lparr>resp_JSONRPC = ''2.0'', resp_ID = IDNumber 7, Result = None,
            Error = Some \<lparr>Code = - 32602, Message = ''Tool not found: missing'',
                          Data = None\<rparr>\<rparr>\<rparr>,
      calls = []\<rparr>"
  using handleRequest_unknown_tool [of
      "\<lparr>JSONRPC = ''2.0'', ID = IDNumber 7, Method = ''tools/call'',
        Params = Some (JObject [(''name'', JString ''missing'')])\<rparr>"
      asciiFold "\<lparr>call_Name = ''missing'', Arguments = None\<rparr>" exampleServer basicRender
      basicDecoder 0]
  by (simp add: decode_defs exampleServer_def NewServer_def)

text \<open>
  Claim C5 (unknown tool, the error response echoes the request id) against the code:
  a tools/call request for an unknown tool with \<open>"id": null\<close> is answered with the error
  -32602, no handler is invoked and the server is unchanged, but the response does not
  carry the id of the request. \<open>RequestID.UnmarshalJSON\<close> tries a string first, the
  string attempt accepts null and leaves the empty string, so its null check is never
  reached; the response is marshalled with the id \<open>""\<close>, not null.
\<close>

theorem handleMCPRequest_null_id_not_echoed:
  "handleMCPRequest asciiFold basicRender basicDecoder 0 exampleServer
      \<lparr>httpMethod = ''POST'',
       httpBody = Bytes (Some (JObject [(''jsonrpc'', JString ''2.0''), (''id'', JNull),
                    (''method'', JString ''tools/call''),
                    (''params'', JObject [(''name'', JString ''missing'')])]))\<rparr>
     = \<lparr>srv = exampleServer,
        out = Responded
          \<lparr>StatusCode = 400, Header = [(''Content-Type'', ''application/json'')],
           Body = Envelope
             \<lparr>resp_JSONRPC = ''2.0'', resp_ID = IDString [], Result = None,
              Error = Some \<lparr>Code = - 32602, Message = ''Tool not found: missing'',
                            Data = None\<rparr>\<rparr>\<rparr>,
        calls = []\<rparr>
   \<and> RequestID_UnmarshalJSON JNull = Inr (IDString [])
   \<and> RequestID_MarshalJSON (IDString []) = JString []
   \<and> RequestID_MarshalJSON (IDString []) \<noteq> JNull"
  by (simp add: decode_defs router_defs exampleServer_def NewServer_def
      RequestID_MarshalJSON_def)

lemma env_callResult: "envelopeOf (callResult fmt_v i results) = None \<Longrightarrow> \<exists>p. callResult fmt_v i results = Panicked p"
  by (cases "last results") (simp_all add: callResult_def envelopeOf_writeSuccess Let_def split: if_splits)

lemma env_handleCallTool:
  "envelopeOf (out (handleCallTool foldName fmt_v dec s req)) = None \<Longrightarrow>
   \<exists>p. out (handleCallTool foldName fmt_v dec s req) = Panicked p"
  using env_callResult
  by (auto simp add: handleCallTool_def envelopeOf_writeError Let_def
      split: sum.splits option.splits)

lemma env_handleRequest:
  "envelopeOf (out (handleRequest foldName fmt_v dec now s req)) = None \<Longrightarrow>
   \<exists>p. out (handleRequest foldName fmt_v dec now s req) = Panicked p"
  using env_handleCallTool [of foldName fmt_v dec s req]
  by (auto simp add: handleRequest_def handleInitialize_def handleListTools_def
      envelopeOf_writeError envelopeOf_writeSuccess Let_def split: sum.splits if_splits)

text \<open>
  Claim C8 (parse errors, requests and notifications). For a POST: bytes that are not
  valid JSON are answered with the JSON-RPC error -32700 and HTTP status 400. An object
  with an id member (of any value, null included) is handled as a request: it is
  decoded as a Request and given to the method dispatch, or answered with the parse
  error -32700 when that decoding fails, and unless the handling panics the answer is a
  JSON-RPC envelope. An object without an id member is handled as a notification: the
  answer is a bare HTTP status (202, or 400 when the notification does not decode),
  never an envelope, and neither the server nor the handlers are touched.
\<close>

theorem handleMCPRequest_classification:
  assumes post: "httpMethod r = ''POST''"
  shows
   "(httpBody r = Bytes None \<longrightarrow>
       handleMCPRequest foldName fmt_v dec now s r =
         \<lparr>srv = s,
          out = Responded
            \<lparr>StatusCode = 400, Header = [(''Content-Type'', ''application/json'')],
             Body = Envelope
               \<lparr>resp_JSONRPC = ''2.0'', resp_ID = IDNil, Result = None,
                Error = Some \<lparr>Code = - 32700, Message = ''Parse error: Invalid JSON'',
                              Data = Some SyntaxError\<rparr>\<rparr>\<rparr>,
          calls = []\<rparr>) \<and>
    (\<forall>kvs. httpBody r = Bytes (Some (JObject kvs)) \<and> map_of kvs ''id'' \<noteq> None \<longrightarrow>
       (case unmarshalRequest foldName (Some (JObject kvs)) of
          Inr req \<Rightarrow> handleMCPRequest foldName fmt_v dec now s r = handleRequest foldName fmt_v dec now s req
        | Inl err \<Rightarrow>
            handleMCPRequest foldName fmt_v dec now s r =
              \<lparr>srv = s,
               out = Responded
                 \<lparr>StatusCode = 400, Header = [(''Content-Type'', ''application/json'')],
                  Body = Envelope
                    \<lparr>resp_JSONRPC = ''2.0'', resp_ID = IDNil, Result = None,
                     Error = Some \<lparr>Code = - 32700,
                                   Message = ''Parse error: Invalid Request structure'',
                                   Data = Some err\<rparr>\<rparr>\<rparr>,
               calls = []\<rparr>) \<and>
       (envelopeOf (out (handleMCPRequest foldName fmt_v dec now s r)) = None \<longrightarrow>
          (\<exists>p. out (handleMCPRequest foldName fmt_v dec now s r) = Panicked p))) \<and>
    (\<forall>kvs. httpBody r = Bytes (Some (JObject kvs)) \<and> map_of kvs ''id'' = None \<longrightarrow>
       srv (handleMCPRequest foldName fmt_v dec now s r) = s \<and>
       calls (handleMCPRequest foldName fmt_v dec now s r) = [] \<and>
       envelopeOf (out (handleMCPRequest foldName fmt_v dec now s r)) = None \<and>
       (case unmarshalNotification foldName (Some (JObject kvs)) of
          Inr n \<Rightarrow> out (handleMCPRequest foldName fmt_v dec now s r)
                     = Responded \<lparr>StatusCode = 202, Header = [], Body = NoBody\<rparr>
        | Inl err \<Rightarrow> out (handleMCPRequest foldName fmt_v dec now s r)
                     = Responded \<lparr>StatusCode = 400, Header = [], Body = NoBody\<rparr>))"
proof (intro conjI allI impI)
  assume "httpBody r = Bytes None"
  with post show "handleMCPRequest foldName fmt_v dec now s r =
         \<lparr>srv = s,
          out = Responded
            \<lparr>StatusCode = 400, Header = [(''Content-Type'', ''application/json'')],
             Body = Envelope
               \<lparr>resp_JSONRPC = ''2.0'', resp_ID = IDNil, Result = None,
                Error = Some \<lparr>Code = - 32700, Message = ''Parse error: Invalid JSON'',
                              Data = Some SyntaxError\<rparr>\<rparr>\<rparr>,
          calls = []\<rparr>"
    by (simp add: handleMCPRequest_def unmarshalRawMessage_def writeErrorResponse_def)
next
  fix kvs
  assume a: "httpBody r = Bytes (Some (JObject kvs)) \<and> map_of kvs ''id'' \<noteq> None"
  with post have eq: "handleMCPRequest foldName fmt_v dec now s r =
     (case unmarshalRequest foldName (Some (JObject kvs)) of
        Inl err \<Rightarrow> \<lparr>srv = s,
               out = Responded (writeErrorResponse [] IDNil (-32700)
                        ''Parse error: Invalid Request structure'' (Some err)),
               calls = []\<rparr>
      | Inr req \<Rightarrow> handleRequest foldName fmt_v dec now s req)"
    by (auto simp add: handleMCPRequest_def unmarshalRawMessage_def)
  show "case unmarshalRequest foldName (Some (JObject kvs)) of
          Inr req \<Rightarrow> handleMCPRequest foldName fmt_v dec now s r = handleRequest foldName fmt_v dec now s req
        | Inl err \<Rightarrow>
            handleMCPRequest foldName fmt_v dec now s r =
              \<lparr>srv = s,
               out = Responded
                 \<lparr>StatusCode = 400, Header = [(''Content-Type'', ''application/json'')],
                  Body = Envelope
                    \<lparr>resp_JSONRPC = ''2.0'', resp_ID = IDNil, Result = None,
                     Error = Some \<lparr>Code = - 32700,
                                   Message = ''Parse error: Invalid Request structure'',
                                   Data = Some err\<rparr>\<rparr>\<rparr>,
               calls = []\<rparr>"
    unfolding eq by (simp add: writeErrorResponse_def split: sum.splits)
  assume "envelopeOf (out (handleMCPRequest foldName fmt_v dec now s r)) = None"
  then show "\<exists>p. out (handleMCPRequest foldName fmt_v dec now s r) = Panicked p"
    unfolding eq using env_handleRequest
    by (auto simp: envelopeOf_writeError split: sum.splits)
next
  fix kvs
  assume a: "httpBody r = Bytes (Some (JObject kvs)) \<and> map_of kvs ''id'' = None"
  with post have eq: "handleMCPRequest foldName fmt_v dec now s r =
     (case unmarshalNotification foldName (Some (JObject kvs)) of
        Inl err \<Rightarrow> \<lparr>srv = s, out = Responded \<lparr>StatusCode = 400, Header = [], Body = NoBody\<rparr>,
                     calls = []\<rparr>
      | Inr notif \<Rightarrow> handleNotification s notif)"
    by (auto simp add: handleMCPRequest_def unmarshalRawMessage_def)
  show "srv (handleMCPRequest foldName fmt_v dec now s r) = s"
    unfolding eq by (simp add: handleNotification_def split: sum.splits)
  show "calls (handleMCPRequest foldName fmt_v dec now s r) = []"
    unfolding eq by (simp add: handleNotification_def split: sum.splits)
  show "envelopeOf (out (handleMCPRequest foldName fmt_v dec now s r)) = None"
    unfolding eq by (simp add: handleNotification_def envelopeOf_def split: sum.splits)
  show "case unmarshalNotification foldName (Some (JObject kvs)) of
          Inr n \<Rightarrow> out (handleMCPRequest foldName fmt_v dec now s r)
                     = Responded \<lparr>StatusCode = 202, Header = [], Body = NoBody\<rparr>
        | Inl err \<Rightarrow> out (handleMCPRequest foldName fmt_v dec now s r)
                     = Responded \<lparr>StatusCode = 400, Header = [], Body = NoBody\<rparr>"
    unfolding eq by (simp add: handleNotification_def split: sum.splits)
qed


theorem handleMCPRequest_classification_witness:
  "handleMCPRequest asciiFold basicRender basicDecoder 0 exampleServer
      \<lparr>httpMethod = ''POST'', httpBody = Bytes None\<rparr>
     = \<lparr>srv = exampleServer,
        out = Responded
          \<lparr>StatusCode = 400, Header = [(''Content-Type'', ''application/json'')],
           Body = Envelope
             \<lparr>resp_JSONRPC = ''2.0'', resp_ID = IDNil, Result = None,
              Error = Some \<lparr>Code = - 32700, Message = ''Parse error: Invalid JSON'',
                            Data = Some SyntaxError\<rparr>\<rparr>\<rparr>,
        calls = []\<rparr>
   \<and> handleMCPRequest asciiFold basicRender basicDecoder 0 exampleServer
      \<lparr>httpMethod = ''POST'',
       httpBody = Bytes (Some (JObject [(''id'', JNull), (''method'', JString ''ping'')]))\<rparr>
     = handleRequest asciiFold basicRender basicDecoder 0 exampleServer
         \<lparr>JSONRPC = [], ID = IDString [], Method = ''ping'', Params = None\<rparr>
   \<and> out (handleMCPRequest asciiFold basicRender basicDecoder 0 exampleServer
      \<lparr>httpMethod = ''POST'',
       httpBody = Bytes (Some (JObject [(''method'', JString ''notifications/initialized'')]))\<rparr>)
     = Responded \<lparr>StatusCode = 202, Header = [], Body = NoBody\<rparr>"
proof -
  have req: "unmarshalRequest asciiFold (Some (JObject [(''id'', JNull), (''method'', JString ''ping'')]))
      = Inr \<lparr>JSONRPC = [], ID = IDString [], Method = ''ping'', Params = None\<rparr>"
    by (simp add: decode_defs)
  have notif: "unmarshalNotification asciiFold
        (Some (JObject [(''method'', JString ''notifications/initialized'')]))
      = Inr \<lparr>notif_JSONRPC = [], notif_Method = ''notifications/initialized'',
              notif_Params = None\<rparr>"
    by (simp add: decode_defs)
  from handleMCPRequest_classification [of
      "\<lparr>httpMethod = ''POST'', httpBody = Bytes None\<rparr>" asciiFold basicRender basicDecoder 0
      exampleServer]
    handleMCPRequest_classification [of
      "\<lparr>httpMethod = ''POST'',
        httpBody = Bytes (Some (JObject [(''id'', JNull), (''method'', JString ''ping'')]))\<rparr>"
      asciiFold basicRender basicDecoder 0 exampleServer]
    handleMCPRequest_classification [of
      "\<lparr>httpMethod = ''POST'',
        httpBody = Bytes (Some (JObject [(''method'', JString ''notifications/initialized'')]))\<rparr>"
      asciiFold basicRender basicDecoder 0 exampleServer]
  show ?thesis by (simp add: req notif)
qed


lemmas param_defs = unmarshalParams_def jsonFields_def dominantField_def candidateField_def
  taggedField_def wireName_def exported_def paramStore_def fieldValue_def marshalArguments_def
  propertyName_def tag_Get_def reflect_Elem_def reflect_Call_def assignableTo_def
  backgroundCtx_def Implements_def contextContext_def

lemma example_registration:
  assumes "vtype h = TFunc ins [errorInterface] \<or> vtype h = TFunc ins [TString, errorInterface]"
    and "ins = [TPtr AddParams] \<or> ins = [TInterface contextContext, TPtr AddParams] \<or>
         ins = [TPtr requestScoped, TPtr AddParams]"
  shows "\<exists>d. tools (fst (registerSingleTool reflector_Reflect exampleServer
                 \<lparr>Definition = namedTool ''calculator/add'', Handler = Some h\<rparr>))
             ''calculator/add''
     = Some \<lparr>tool_Definition = d, handlerValue = h, inputType = TPtr AddParams,
             takesContext = (length ins = 2)\<rparr>"
  using assms
  by (auto simp add: registerSingleTool_def namedTool_def AddParams_def exampleServer_def
      NewServer_def Implements_def contextContext_def isPtrToStruct_def requestScoped_def
      generateSchemaForType_def json_MarshalIndent_def Let_def)


section \<open>Properties of sessions\<close>

lemma digitChar_inj: "d < 10 \<Longrightarrow> e < 10 \<Longrightarrow> digitChar d = digitChar e \<Longrightarrow> d = e"
proof -
  assume d: "d < 10" and e: "e < 10" and eq: "digitChar d = digitChar e"
  from eq have "(of_char (char_of (48 + d)) :: nat) = of_char (char_of (48 + e))"
    by (simp add: digitChar_def)
  then have "(48 + d) mod 256 = (48 + e) mod 256" by simp
  with d e show ?thesis by simp
qed

lemma digitChar_not_minus: "d < 10 \<Longrightarrow> digitChar d \<noteq> CHR ''-''"
proof
  assume d: "d < 10" and eq: "digitChar d = CHR ''-''"
  from eq have "(of_char (char_of (48 + d)) :: nat) = of_char (CHR ''-'')"
    by (simp add: digitChar_def)
  then have "(48 + d) mod 256 = 45" by simp
  with d show False by simp
qed

lemma itoaNat_nonempty: "itoaNat n \<noteq> []"
  by (subst itoaNat.simps) simp

lemma itoaNat_last: "last (itoaNat n) = digitChar (n mod 10)"
  by (subst itoaNat.simps) simp

lemma itoaNat_butlast: "butlast (itoaNat n) = (if n < 10 then [] else itoaNat (n div 10))"
  by (subst itoaNat.simps) simp

lemma itoaNat_inj: "itoaNat m = itoaNat n \<Longrightarrow> m = n"
proof (induction m arbitrary: n rule: itoaNat.induct)
  case (1 m)
  from "1.prems" have l: "digitChar (m mod 10) = digitChar (n mod 10)"
    using itoaNat_last by metis
  then have md: "m mod 10 = n mod 10"
    by (intro digitChar_inj) simp_all
  from "1.prems" have b: "butlast (itoaNat m) = butlast (itoaNat n)" by simp
  show ?case
  proof (cases "m < 10")
    case True
    with b have "n < 10"
      by (auto simp: itoaNat_butlast itoaNat_nonempty split: if_splits dest: sym)
    with True md show ?thesis by simp
  next
    case False
    with b have n: "\<not> n < 10" and eq: "itoaNat (m div 10) = itoaNat (n div 10)"
      by (auto simp: itoaNat_butlast itoaNat_nonempty split: if_splits)
    from "1.IH" [OF False eq] have "m div 10 = n div 10" .
    with md show ?thesis
      by (metis div_mult_mod_eq)
  qed
qed

lemma itoaNat_hd: "hd (itoaNat n) \<noteq> CHR ''-''"
proof (induction n rule: itoaNat.induct)
  case (1 n)
  show ?case
  proof (cases "n < 10")
    case True
    then show ?thesis by (subst itoaNat.simps) (simp add: digitChar_not_minus)
  next
    case False
    with 1 show ?thesis by (subst itoaNat.simps) (simp add: itoaNat_nonempty)
  qed
qed

lemma itoa_inj: "itoa i = itoa j \<Longrightarrow> i = j"
proof -
  assume eq: "itoa i = itoa j"
  have neg: "hd (itoaNat k) \<noteq> CHR ''-''" for k by (rule itoaNat_hd)
  have ne: "itoaNat k \<noteq> []" for k by (rule itoaNat_nonempty)
  show ?thesis
  proof (cases "i < 0"; cases "j < 0")
    assume "i < 0" "j < 0"
    with eq have "itoaNat (nat (- i)) = itoaNat (nat (- j))" by (simp add: itoa_def)
    then have "nat (- i) = nat (- j)" by (rule itoaNat_inj)
    with \<open>i < 0\<close> \<open>j < 0\<close> show ?thesis by simp
  next
    assume "i < 0" "\<not> j < 0"
    with eq have "CHR ''-'' # itoaNat (nat (- i)) = itoaNat (nat j)" by (simp add: itoa_def)
    then have "hd (itoaNat (nat j)) = CHR ''-''" by (metis list.sel(1))
    with neg show ?thesis by simp
  next
    assume "\<not> i < 0" "j < 0"
    with eq have "itoaNat (nat i) = CHR ''-'' # itoaNat (nat (- j))" by (simp add: itoa_def)
    then have "hd (itoaNat (nat i)) = CHR ''-''" by (metis list.sel(1))
    with neg show ?thesis by simp
  next
    assume "\<not> i < 0" "\<not> j < 0"
    with eq have "itoaNat (nat i) = itoaNat (nat j)" by (simp add: itoa_def)
    then have "nat i = nat j" by (rule itoaNat_inj)
    with \<open>\<not> i < 0\<close> \<open>\<not> j < 0\<close> show ?thesis by simp
  qed
qed

text \<open>
  Claim C9, as amended (session identifiers). Two sequential successful initialize
  calls whose clock readings differ return two distinct session identifiers in the
  header, and after both calls each identifier maps to the session stored for it, with
  the capabilities its client declared.
\<close>

theorem handleInitialize_distinct_sessions:
  assumes "unmarshalInitializeRequest foldName (Params req1) = Inr p1"
    and "unmarshalInitializeRequest foldName (Params req2) = Inr p2"
    and "now1 \<noteq> now2"
  shows "sessionIdOf (out (handleInitialize foldName now1 s req1)) = Some (''session-'' @ itoa now1) \<and>
         sessionIdOf (out (handleInitialize foldName now2 (srv (handleInitialize foldName now1 s req1)) req2))
           = Some (''session-'' @ itoa now2) \<and>
         ''session-'' @ itoa now1 \<noteq> ''session-'' @ itoa now2 \<and>
         sessions (srv (handleInitialize foldName now2 (srv (handleInitialize foldName now1 s req1)) req2))
             (''session-'' @ itoa now1)
           = Some \<lparr>session_ClientCapabilities = init_Capabilities p1\<rparr> \<and>
         sessions (srv (handleInitialize foldName now2 (srv (handleInitialize foldName now1 s req1)) req2))
             (''session-'' @ itoa now2)
           = Some \<lparr>session_ClientCapabilities = init_Capabilities p2\<rparr>"
proof -
  from assms(3) have ne: "itoa now1 \<noteq> itoa now2"
    using itoa_inj by blast
  with assms(1,2) show ?thesis
    by (simp add: handleInitialize_def sessionIdOf_def writeSuccessResponse_def
        json_Marshal_def Let_def)
qed

theorem handleInitialize_distinct_sessions_witness:
  "sessionIdOf (out (handleInitialize asciiFold 1761868800000000000 exampleServer
       \<lparr>JSONRPC = ''2.0'', ID = IDNumber 1, Method = ''initialize'',
        Params = Some initializeParams\<rparr>))
   \<noteq> sessionIdOf (out (handleInitialize asciiFold 1761868800000000001
          (srv (handleInitialize asciiFold 1761868800000000000 exampleServer
                 \<lparr>JSONRPC = ''2.0'', ID = IDNumber 1, Method = ''initialize'',
                  Params = Some initializeParams\<rparr>))
          \<lparr>JSONRPC = ''2.0'', ID = IDNumber 2, Method = ''initialize'',
           Params = Some initializeParams\<rparr>))
   \<and> sessions (srv (handleInitialize asciiFold 1761868800000000001
          (srv (handleInitialize asciiFold 1761868800000000000 exampleServer
                 \<lparr>JSONRPC = ''2.0'', ID = IDNumber 1, Method = ''initialize'',
                  Params = Some initializeParams\<rparr>))
          \<lparr>JSONRPC = ''2.0'', ID = IDNumber 2, Method = ''initialize'',
           Params = Some initializeParams\<rparr>))
        (''session-'' @ itoa 1761868800000000000)
     = Some \<lparr>session_ClientCapabilities =
               \<lparr>Roots = Some (), Sampling = None, Elicitation = None\<rparr>\<rparr>"
proof -
  have p: "unmarshalInitializeRequest asciiFold (Some initializeParams)
     = Inr \<lparr>init_ProtocolVersion = ''2025-06-18'',
            ClientInfo = \<lparr>info_Name = ''client'', info_Version = ''1'', info_Title = []\<rparr>,
            init_Capabilities = \<lparr>Roots = Some (), Sampling = None, Elicitation = None\<rparr>\<rparr>"
    by (simp add: decode_defs initializeParams_def)
  from handleInitialize_distinct_sessions [of asciiFold
      "\<lparr>JSONRPC = ''2.0'', ID = IDNumber 1, Method = ''initialize'',
        Params = Some initializeParams\<rparr>" _
      "\<lparr>JSONRPC = ''2.0'', ID = IDNumber 2, Method = ''initialize'',
        Params = Some initializeParams\<rparr>" _
      1761868800000000000 1761868800000000001 exampleServer] p
  show ?thesis by simp
qed

text \<open>
  Claim C9 as stated fails: two sequential successful initialize calls that read the
  same value of the clock return the same session identifier.
\<close>

theorem handleInitialize_same_clock_same_session:
  "sessionIdOf (out (handleInitialize asciiFold 1761868800000000000 exampleServer
       \<lparr>JSONRPC = ''2.0'', ID = IDNumber 1, Method = ''initialize'',
        Params = Some initializeParams\<rparr>))
     = Some (''session-'' @ itoa 1761868800000000000)
   \<and> sessionIdOf (out (handleInitialize asciiFold 1761868800000000000
          (srv (handleInitialize asciiFold 1761868800000000000 exampleServer
                 \<lparr>JSONRPC = ''2.0'', ID = IDNumber 1, Method = ''initialize'',
                  Params = Some initializeParams\<rparr>))
          \<lparr>JSONRPC = ''2.0'', ID = IDNumber 2, Method = ''initialize'',
           Params = Some initializeParams\<rparr>))
     = Some (''session-'' @ itoa 1761868800000000000)"
proof -
  have p: "unmarshalInitializeRequest asciiFold (Some initializeParams)
     = Inr \<lparr>init_ProtocolVersion = ''2025-06-18'',
            ClientInfo = \<lparr>info_Name = ''client'', info_Version = ''1'', info_Title = []\<rparr>,
            init_Capabilities = \<lparr>Roots = Some (), Sampling = None, Elicitation = None\<rparr>\<rparr>"
    by (simp add: decode_defs initializeParams_def)
  show ?thesis
    by (simp add: handleInitialize_def p sessionIdOf_def writeSuccessResponse_def
        json_Marshal_def Let_def)
qed

section \<open>Properties of argument decoding\<close>

lemma paramStore_name: "map fst (map (paramStore dec) fs) = map wireName fs"
  by (induction fs) (auto simp: paramStore_def)

lemma paramStore_fst: "fst \<circ> paramStore dec = wireName"
  by (rule ext) (auto simp: paramStore_def)

lemma map_of_paramStore:
  "map_of (map (paramStore dec) fs) w =
     (case find (\<lambda>f. wireName f = w) fs of
        None \<Rightarrow> None
      | Some f \<Rightarrow> Some (snd (paramStore dec f)))"
proof (induction fs)
  case Nil
  then show ?case by simp
next
  case (Cons f fs)
  obtain n t tag where f: "f = (n, t, tag)" using prod_cases3 by blast
  have "fst (paramStore dec f) = wireName f" by (simp add: paramStore_def f)
  then have "paramStore dec f = (wireName f, snd (paramStore dec f))"
    by (metis prod.collapse)
  then have "map_of (paramStore dec f # map (paramStore dec) fs) w
     = (if wireName f = w then Some (snd (paramStore dec f)) else map_of (map (paramStore dec) fs) w)"
    by (metis map_of_Cons_code(2))
  with Cons show ?case by simp
qed

lemma object_step:
  "object foldName (map (paramStore dec) fs) ((k, v) # kvs) fv =
     (case resolveField foldName fs k of
        None \<Rightarrow> object foldName (map (paramStore dec) fs) kvs fv
      | Some (n, t, tag) \<Rightarrow>
          (case dec t v (fieldValue fv n t) of
             Inl e \<Rightarrow> Inl e
           | Inr x \<Rightarrow> object foldName (map (paramStore dec) fs) kvs (AList.update n x fv)))"
proof -
  have snd_store: "snd (paramStore dec (n, t, tag)) v fv =
      (case dec t v (fieldValue fv n t) of
         Inl e \<Rightarrow> Inl e | Inr x \<Rightarrow> Inr (AList.update n x fv))" for n t tag
    by (simp add: paramStore_def)
  show ?thesis
  proof (cases "resolveField foldName fs k")
    case None
    then show ?thesis
      by (auto simp add: paramStore_name paramStore_fst map_of_paramStore resolveField_def
          split: option.splits)
  next
    case (Some f)
    obtain n t tag where f: "f = (n, t, tag)" using prod_cases3 by blast
    from Some obtain w where w: "findField foldName (map wireName fs) k = Some w"
      and fnd: "find (\<lambda>f. wireName f = w) fs = Some (n, t, tag)"
      unfolding f by (auto simp: resolveField_def split: option.splits)
    show ?thesis
      unfolding Some f
      by (simp add: paramStore_name paramStore_fst map_of_paramStore w fnd snd_store split: sum.splits)
  qed
qed

lemma object_succeeds:
  assumes "\<forall>(k, v) \<in> set kvs. \<forall>n t tag cur.
             resolveField foldName fs k = Some (n, t, tag) \<longrightarrow> (\<exists>x. dec t v cur = Inr x)"
  shows "\<exists>fv'. object foldName (map (paramStore dec) fs) kvs fv = Inr fv' \<and>
           (\<forall>n. (\<forall>k \<in> fst ` set kvs. \<forall>t tag. resolveField foldName fs k \<noteq> Some (n, t, tag)) \<longrightarrow>
                map_of fv' n = map_of fv n)"
  using assms
proof (induction kvs arbitrary: fv)
  case Nil
  then show ?case by simp
next
  case (Cons kv kvs)
  obtain k v where kv: "kv = (k, v)" by (cases kv)
  from Cons.prems have rest: "\<forall>(k, v) \<in> set kvs. \<forall>n t tag cur.
             resolveField foldName fs k = Some (n, t, tag) \<longrightarrow> (\<exists>x. dec t v cur = Inr x)"
    by simp
  from Cons.prems have here: "\<forall>n t tag cur.
             resolveField foldName fs k = Some (n, t, tag) \<longrightarrow> (\<exists>x. dec t v cur = Inr x)"
    unfolding kv by simp
  show ?case
  proof (cases "resolveField foldName fs k")
    case None
    from Cons.IH [OF rest, of fv] obtain fv' where
      "object foldName (map (paramStore dec) fs) kvs fv = Inr fv'"
      "\<forall>n. (\<forall>k \<in> fst ` set kvs. \<forall>t tag. resolveField foldName fs k \<noteq> Some (n, t, tag)) \<longrightarrow>
                map_of fv' n = map_of fv n" by blast
    then show ?thesis unfolding kv object_step None by auto
  next
    case (Some f)
    obtain n t tag where f: "f = (n, t, tag)" using prod_cases3 by blast
    from here Some obtain x where x: "dec t v (fieldValue fv n t) = Inr x"
      unfolding f by blast
    from Cons.IH [OF rest, of "AList.update n x fv"] obtain fv' where
      r: "object foldName (map (paramStore dec) fs) kvs (AList.update n x fv) = Inr fv'"
      and u: "\<forall>m. (\<forall>k \<in> fst ` set kvs. \<forall>t tag. resolveField foldName fs k \<noteq> Some (m, t, tag)) \<longrightarrow>
                map_of fv' m = map_of (AList.update n x fv) m" by blast
    have "map_of fv' m = map_of fv m"
      if "\<forall>k' \<in> fst ` set (kv # kvs). \<forall>t tag. resolveField foldName fs k' \<noteq> Some (m, t, tag)" for m
    proof -
      from that Some have "m \<noteq> n" unfolding kv f by auto
      moreover from that u have "map_of fv' m = map_of (AList.update n x fv) m" by simp
      ultimately show ?thesis by (simp add: update_conv')
    qed
    then show ?thesis unfolding kv object_step Some f using x r by auto
  qed
qed

lemma object_ignores_unknown:
  "object foldName (map (paramStore dec) fs) (filter (\<lambda>kv. resolveField foldName fs (fst kv) \<noteq> None) kvs) fv
     = object foldName (map (paramStore dec) fs) kvs fv"
proof (induction kvs arbitrary: fv)
  case Nil
  then show ?case by simp
next
  case (Cons kv kvs)
  obtain k v where kv: "kv = (k, v)" by (cases kv)
  show ?case
  proof (cases "resolveField foldName fs k")
    case None
    then have "filter (\<lambda>kv. resolveField foldName fs (fst kv) \<noteq> None) (kv # kvs)
        = filter (\<lambda>kv. resolveField foldName fs (fst kv) \<noteq> None) kvs"
      by (simp add: kv)
    then show ?thesis unfolding kv object_step None using Cons.IH by simp
  next
    case (Some f)
    obtain n t tag where f: "f = (n, t, tag)" using prod_cases3 by blast
    from Some have flt: "filter (\<lambda>kv. resolveField foldName fs (fst kv) \<noteq> None) ((k, v) # kvs)
        = (k, v) # filter (\<lambda>kv. resolveField foldName fs (fst kv) \<noteq> None) kvs"
      using f by auto
    show ?thesis unfolding kv flt object_step Some f
      by (simp add: Cons.IH split: sum.splits del: not_None_eq)
  qed
qed


lemma envelopeOf_Panicked: "envelopeOf (Panicked p) = None"
  by (simp add: envelopeOf_def)

lemma callResult_no_error:
  "envelopeOf (callResult fmt_v i results) = Some e \<Longrightarrow> Error e = None"
  by (cases "last results")
     (auto simp add: callResult_def envelopeOf_writeSuccess envelopeOf_Panicked Let_def
       split: if_splits)

lemma unmarshalParams_struct:
  "unmarshalParams foldName dec (TStruct vm pm flds) doc =
     (case unmarshalStruct foldName (map (paramStore dec) (jsonFields flds)) doc (zeroFields flds) of
        Inl e \<Rightarrow> Inl e | Inr fv \<Rightarrow> Inr (VStruct fv))"
  by (simp add: unmarshalParams_def)

lemma handleCallTool_decoded:
  assumes "unmarshalCallToolRequest foldName (Params req) = Inr cp"
    and "tools s (call_Name cp) = Some tool"
    and "inputType tool = TPtr elemType"
    and "unmarshalParams foldName dec elemType (marshalArguments (Arguments cp)) = Inr inputValue"
  shows "handleCallTool foldName fmt_v dec s req =
     (case reflect_Call (handlerValue tool)
             ((if takesContext tool then [(backgroundCtx, VContext)] else [])
              @ [(inputType tool, VPtr inputValue)]) of
        None \<Rightarrow> \<lparr>srv = s, out = Panicked CallMismatch, calls = []\<rparr>
      | Some results \<Rightarrow>
          \<lparr>srv = s, out = callResult fmt_v (ID req) results,
           calls = [(call_Name cp,
                     (if takesContext tool then [VContext] else []) @ [VPtr inputValue])]\<rparr>)"
  using assms by (simp add: handleCallTool_def reflect_Elem_def Let_def split: option.splits)

text \<open>
  A call is well typed when the handler is a function of the input type, preceded, if
  the tool takes a context, by a parameter that the background context can be assigned
  to; then \<open>reflect\<close> calls the handler.
\<close>

lemma reflect_Call_well_typed:
  assumes "vtype h = TFunc ins outs"
    and "length ins = (if tc then 2 else 1)"
    and "last ins = t"
    and "tc \<longrightarrow> assignableTo backgroundCtx (hd ins)"
  shows "reflect_Call h ((if tc then [(backgroundCtx, VContext)] else []) @ [(t, VPtr v)])
     = Some (vcall h ((if tc then [VContext] else []) @ [VPtr v]))"
proof (cases tc)
  case True
  with assms(2) obtain c p where ins: "ins = [c, p]"
    by (cases ins; cases "tl ins") auto
  with assms True show ?thesis
    by (simp add: reflect_Call_def assignableTo_def)
next
  case False
  with assms(2) obtain p where ins: "ins = [p]"
    by (cases ins) auto
  with assms False show ?thesis
    by (simp add: reflect_Call_def assignableTo_def)
qed

text \<open>The registry only ever holds tools whose input type is a pointer to a struct.\<close>

lemma isPtrToStruct_shape:
  assumes "isPtrToStruct t"
  shows "\<exists>vm pm flds. t = TPtr (TStruct vm pm flds)"
proof (cases t)
  case (TPtr e)
  with assms show ?thesis by (cases e) (simp_all add: isPtrToStruct_def)
qed (use assms in \<open>simp_all add: isPtrToStruct_def\<close>)

lemma registerSingleTool_input_types:
  assumes "\<forall>n t. tools s n = Some t \<longrightarrow> isPtrToStruct (inputType t)"
  shows "\<forall>n t. tools (fst (registerSingleTool r s reg)) n = Some t \<longrightarrow> isPtrToStruct (inputType t)"
proof (cases rule: reg_cases [where reg=reg and r=r and s=s])
  case name
  with assms show ?thesis by simp
next
  case nil
  with assms show ?thesis by simp
next
  case (rejected h e)
  with assms show ?thesis by simp
next
  case (accepted h ins outs sch)
  show ?thesis
    unfolding accepted(9) using assms accepted(6) by simp
qed

lemma RegisterTools_input_types:
  assumes "\<forall>n t. tools s n = Some t \<longrightarrow> isPtrToStruct (inputType t)"
  shows "\<forall>n t. tools (fst (RegisterTools r s regs)) n = Some t \<longrightarrow> isPtrToStruct (inputType t)"
  using assms
proof (induction regs arbitrary: s)
  case Nil
  then show ?case by simp
next
  case (Cons reg regs)
  note step = registerSingleTool_input_types [OF Cons.prems, of r reg]
  obtain s' oc where res: "registerSingleTool r s reg = (s', oc)" by (cases "registerSingleTool r s reg")
  with step have inv: "\<forall>n t. tools s' n = Some t \<longrightarrow> isPtrToStruct (inputType t)" by simp
  show ?case
  proof (cases oc)
    case Ok
    with res Cons.IH [OF inv] show ?thesis by simp
  next
    case (Err e)
    with res inv show ?thesis by simp
  next
    case (Panic m)
    with res inv show ?thesis by simp
  qed
qed

text \<open>
  The required list is not enforced when the arguments are decoded. For a tool in the
  registry whose input type is a pointer to a struct (as registration leaves it), whose
  call is well typed, and a tools/call request whose parameters decode: if every
  argument that is decoded into a field has a value that the field's type accepts,
  then, whichever fields the arguments omit, decoding succeeds, the handler is invoked
  with the decoded struct and its results make the answer, the answer is no JSON-RPC
  error, and every field that no argument is decoded into has its zero value; with the
  arguments absent or empty the struct is the zero struct. Keys that are decoded into
  no field do not matter: decoding gives the same with and without them.
\<close>

lemma handleCallTool_tolerant_decoding:
  assumes cp: "unmarshalCallToolRequest foldName (Params req) = Inr cp"
    and tool: "tools s (call_Name cp) = Some tool"
    and ty: "inputType tool = TPtr (TStruct vm pm flds)"
    and ok: "\<forall>(k, v) \<in> set (case Arguments cp of None \<Rightarrow> [] | Some m \<Rightarrow> m).
               \<forall>n t tag cur. targetField foldName flds k = Some (n, t, tag) \<longrightarrow>
                 (\<exists>x. dec t v cur = Inr x)"
    and fn: "vtype (handlerValue tool) = TFunc ins outs"
    and arity: "length ins = (if takesContext tool then 2 else 1)"
    and inp: "last ins = inputType tool"
    and ctx: "takesContext tool \<longrightarrow> assignableTo backgroundCtx (hd ins)"
  shows "(\<exists>fv.
           unmarshalParams foldName dec (TStruct vm pm flds) (marshalArguments (Arguments cp))
             = Inr (VStruct fv) \<and>
           handleCallTool foldName fmt_v dec s req
             = \<lparr>srv = s,
                out = callResult fmt_v (ID req)
                        (vcall (handlerValue tool)
                           ((if takesContext tool then [VContext] else []) @ [VPtr (VStruct fv)])),
                calls = [(call_Name cp,
                          (if takesContext tool then [VContext] else []) @ [VPtr (VStruct fv)])]\<rparr> \<and>
           (\<forall>e. envelopeOf (out (handleCallTool foldName fmt_v dec s req)) = Some e \<longrightarrow>
                Error e = None) \<and>
           (\<forall>n. (\<forall>k \<in> fst ` set (case Arguments cp of None \<Rightarrow> [] | Some m \<Rightarrow> m).
                   \<forall>t tag. targetField foldName flds k \<noteq> Some (n, t, tag)) \<longrightarrow>
                map_of fv n = map_of (zeroFields flds) n) \<and>
           (Arguments cp = None \<or> Arguments cp = Some [] \<longrightarrow> fv = zeroFields flds)) \<and>
         (\<forall>kvs. unmarshalParams foldName dec (TStruct vm pm flds)
                  (Some (JObject (filter (\<lambda>kv. targetField foldName flds (fst kv) \<noteq> None) kvs)))
               = unmarshalParams foldName dec (TStruct vm pm flds) (Some (JObject kvs)))"
proof
  let ?T = "TStruct vm pm flds"
  let ?args = "case Arguments cp of None \<Rightarrow> [] | Some m \<Rightarrow> m"
  let ?fds = "map (paramStore dec) (jsonFields flds)"
  have dec: "\<exists>fv. unmarshalParams foldName dec ?T (marshalArguments (Arguments cp))
               = Inr (VStruct fv) \<and>
      (\<forall>n. (\<forall>k \<in> fst ` set ?args. \<forall>t tag. targetField foldName flds k \<noteq> Some (n, t, tag)) \<longrightarrow>
           map_of fv n = map_of (zeroFields flds) n) \<and>
      (Arguments cp = None \<or> Arguments cp = Some [] \<longrightarrow> fv = zeroFields flds)"
  proof (cases "Arguments cp")
    case None
    then show ?thesis
      by (simp add: unmarshalParams_struct marshalArguments_def unmarshalStruct_def)
  next
    case (Some m)
    from ok Some have "\<forall>(k, v) \<in> set (sort_key fst m). \<forall>n t tag cur.
        resolveField foldName (jsonFields flds) k = Some (n, t, tag) \<longrightarrow>
          (\<exists>x. dec t v cur = Inr x)"
      by (simp add: targetField_def)
    from object_succeeds [OF this, of "zeroFields flds"] obtain fv where
      o: "object foldName ?fds (sort_key fst m) (zeroFields flds) = Inr fv"
      and z: "\<forall>n. (\<forall>k \<in> fst ` set (sort_key fst m). \<forall>t tag.
                  resolveField foldName (jsonFields flds) k \<noteq> Some (n, t, tag)) \<longrightarrow>
                map_of fv n = map_of (zeroFields flds) n"
      by blast
    have e: "m = [] \<Longrightarrow> fv = zeroFields flds"
      using o by simp
    from o z e Some show ?thesis
      by (simp add: unmarshalParams_struct marshalArguments_def unmarshalStruct_def
          targetField_def)
  qed
  then obtain fv where
    fv: "unmarshalParams foldName dec ?T (marshalArguments (Arguments cp)) = Inr (VStruct fv)"
    and z: "\<forall>n. (\<forall>k \<in> fst ` set ?args. \<forall>t tag. targetField foldName flds k \<noteq> Some (n, t, tag)) \<longrightarrow>
           map_of fv n = map_of (zeroFields flds) n"
    and e: "Arguments cp = None \<or> Arguments cp = Some [] \<longrightarrow> fv = zeroFields flds"
    by blast
  note c = reflect_Call_well_typed [OF fn arity inp ctx, of "VStruct fv"]
  have h: "handleCallTool foldName fmt_v dec s req
             = \<lparr>srv = s,
                out = callResult fmt_v (ID req)
                        (vcall (handlerValue tool)
                           ((if takesContext tool then [VContext] else []) @ [VPtr (VStruct fv)])),
                calls = [(call_Name cp,
                          (if takesContext tool then [VContext] else []) @ [VPtr (VStruct fv)])]\<rparr>"
    unfolding handleCallTool_decoded [OF cp tool ty fv, of fmt_v] c by simp
  have noerr: "\<forall>e. envelopeOf (out (handleCallTool foldName fmt_v dec s req)) = Some e \<longrightarrow>
      Error e = None"
    unfolding h using callResult_no_error by auto
  show "\<exists>fv. unmarshalParams foldName dec ?T (marshalArguments (Arguments cp)) = Inr (VStruct fv) \<and>
           handleCallTool foldName fmt_v dec s req
             = \<lparr>srv = s,
                out = callResult fmt_v (ID req)
                        (vcall (handlerValue tool)
                           ((if takesContext tool then [VContext] else []) @ [VPtr (VStruct fv)])),
                calls = [(call_Name cp,
                          (if takesContext tool then [VContext] else []) @ [VPtr (VStruct fv)])]\<rparr> \<and>
           (\<forall>e. envelopeOf (out (handleCallTool foldName fmt_v dec s req)) = Some e \<longrightarrow>
                Error e = None) \<and>
           (\<forall>n. (\<forall>k \<in> fst ` set ?args. \<forall>t tag. targetField foldName flds k \<noteq> Some (n, t, tag)) \<longrightarrow>
                map_of fv n = map_of (zeroFields flds) n) \<and>
           (Arguments cp = None \<or> Arguments cp = Some [] \<longrightarrow> fv = zeroFields flds)"
    using fv z e noerr h by (intro exI [of _ fv]) simp
next
  show "\<forall>kvs. unmarshalParams foldName dec (TStruct vm pm flds)
                  (Some (JObject (filter (\<lambda>kv. targetField foldName flds (fst kv) \<noteq> None) kvs)))
               = unmarshalParams foldName dec (TStruct vm pm flds) (Some (JObject kvs))"
    by (simp add: unmarshalParams_struct unmarshalStruct_def targetField_def
        object_ignores_unknown del: not_None_eq)
qed

text \<open>
  Claim C10 (for every registered tool a call with omitted arguments invokes the
  handler) against the code: a handler whose first parameter is a pointer type that
  implements the context interface is accepted by registration, with the
  cancellation-token flag set. A call of the tool without arguments decodes into the
  zero struct, and then \<open>handlerValue.Call\<close> panics, since the background context that
  the dispatcher passes cannot be assigned to that parameter: the handler is not
  invoked and no response is written.
\<close>

theorem handleCallTool_registered_handler_not_invoked:
  "snd (registerSingleTool reflector_Reflect exampleServer
          \<lparr>Definition = namedTool ''calculator/add'', Handler = Some scopedHandler\<rparr>) = Ok
   \<and> unmarshalParams asciiFold basicDecoder AddParams (marshalArguments None)
       = Inr (VStruct [(''A'', VFloat64 0), (''B'', VFloat64 0)])
   \<and> handleCallTool asciiFold basicRender basicDecoder
         (fst (registerSingleTool reflector_Reflect exampleServer
                 \<lparr>Definition = namedTool ''calculator/add'', Handler = Some scopedHandler\<rparr>))
         \<lparr>JSONRPC = ''2.0'', ID = IDNumber 5, Method = ''tools/call'',
          Params = Some (JObject [(''name'', JString ''calculator/add'')])\<rparr>
     = \<lparr>srv = fst (registerSingleTool reflector_Reflect exampleServer
                 \<lparr>Definition = namedTool ''calculator/add'', Handler = Some scopedHandler\<rparr>),
        out = Panicked CallMismatch, calls = []\<rparr>"
proof -
  let ?cp = "\<lparr>call_Name = ''calculator/add'', Arguments = None\<rparr>"
  let ?v = "VStruct [(''A'', VFloat64 0), (''B'', VFloat64 0)]"
  have ok: "snd (registerSingleTool reflector_Reflect exampleServer
          \<lparr>Definition = namedTool ''calculator/add'', Handler = Some scopedHandler\<rparr>) = Ok"
    by (simp add: registerSingleTool_def namedTool_def scopedHandler_def AddParams_def
        requestScoped_def exampleServer_def NewServer_def Implements_def contextContext_def
        isPtrToStruct_def generateSchemaForType_def json_MarshalIndent_def Let_def)
  have cp: "unmarshalCallToolRequest asciiFold
      (Params \<lparr>JSONRPC = ''2.0'', ID = IDNumber 5, Method = ''tools/call'',
          Params = Some (JObject [(''name'', JString ''calculator/add'')])\<rparr>) = Inr ?cp"
    by (simp add: decode_defs)
  from example_registration [of scopedHandler "[TPtr requestScoped, TPtr AddParams]"]
  obtain d where t: "tools (fst (registerSingleTool reflector_Reflect exampleServer
        \<lparr>Definition = namedTool ''calculator/add'', Handler = Some scopedHandler\<rparr>))
      (call_Name ?cp)
      = Some \<lparr>tool_Definition = d, handlerValue = scopedHandler, inputType = TPtr AddParams,
              takesContext = True\<rparr>"
    by (auto simp: scopedHandler_def)
  have dec: "unmarshalParams asciiFold basicDecoder AddParams (marshalArguments (Arguments ?cp))
      = Inr ?v"
    by (simp add: param_defs AddParams_def unmarshalStruct_def)
  have call: "reflect_Call scopedHandler [(backgroundCtx, VContext), (TPtr AddParams, VPtr ?v)]
      = None"
    by (simp add: reflect_Call_def scopedHandler_def assignableTo_def backgroundCtx_def
        requestScoped_def)
  from handleCallTool_decoded [OF cp t _ dec, of basicRender] call
  have "handleCallTool asciiFold basicRender basicDecoder
         (fst (registerSingleTool reflector_Reflect exampleServer
                 \<lparr>Definition = namedTool ''calculator/add'', Handler = Some scopedHandler\<rparr>))
         \<lparr>JSONRPC = ''2.0'', ID = IDNumber 5, Method = ''tools/call'',
          Params = Some (JObject [(''name'', JString ''calculator/add'')])\<rparr>
     = \<lparr>srv = fst (registerSingleTool reflector_Reflect exampleServer
                 \<lparr>Definition = namedTool ''calculator/add'', Handler = Some scopedHandler\<rparr>),
        out = Panicked CallMismatch, calls = []\<rparr>"
    by simp
  with ok dec show ?thesis by simp
qed

end
